theory Spec2Isabelle
  imports Main "HOL-Library.Word"
begin

unbundle bit_operations_syntax

section \<open>Wire metadata and the normalized column types\<close>

text \<open>
  The field descriptor of the database client (\<^verbatim>\<open>FieldPacket\<close> of mysql2). The client's
  typings declare \<^verbatim>\<open>columnType\<close>, \<^verbatim>\<open>columnLength\<close> and \<^verbatim>\<open>characterSet\<close> as optional numbers,
  so an absent attribute (\<^verbatim>\<open>undefined\<close>) is \<open>None\<close>. \<^verbatim>\<open>flags\<close> is read as a number
  (\<^verbatim>\<open>flags as number\<close> in \<^verbatim>\<open>hasFlag\<close>). The wire values are unsigned integers.
\<close>

record FieldPacket =
  catalog :: string
  schema :: string
  table :: string
  orgTable :: string
  name :: string
  orgName :: string
  characterSet :: "nat option"
  columnLength :: "nat option"
  columnType :: "nat option"
  flags :: nat
  decimals :: nat

text \<open>The members of \<^verbatim>\<open>ColumnTypeEnum\<close> that \<^verbatim>\<open>fieldToColumnType\<close> returns.\<close>

datatype ColumnType =
  Numeric | Float | Double | Int32 | Int64 | DateTime | Time | Date
  | Text | Bytes | Boolean | Json | Enum

section \<open>The constant tables of conversion.ts\<close>

text \<open>\<^verbatim>\<open>MySqlCodes\<close>: wire type code to name (conversion.ts, lines 4 to 33).\<close>

definition MySqlCodes :: "nat \<Rightarrow> string option" where
  "MySqlCodes = map_of
    [(0x00, ''DECIMAL''), (0x01, ''TINY''), (0x02, ''SHORT''), (0x03, ''LONG''),
     (0x04, ''FLOAT''), (0x05, ''DOUBLE''), (0x06, ''NULL''), (0x07, ''TIMESTAMP''),
     (0x08, ''LONGLONG''), (0x09, ''INT24''), (0x0a, ''DATE''), (0x0b, ''TIME''),
     (0x0c, ''DATETIME''), (0x0d, ''YEAR''), (0x0e, ''NEWDATE''), (0x0f, ''VARCHAR''),
     (0x10, ''BIT''), (0xf5, ''JSON''), (0xf6, ''NEWDECIMAL''), (0xf7, ''ENUM''),
     (0xf8, ''SET''), (0xf9, ''TINY_BLOB''), (0xfa, ''MEDIUM_BLOB''), (0xfb, ''LONG_BLOB''),
     (0xfc, ''BLOB''), (0xfd, ''VAR_STRING''), (0xfe, ''STRING''), (0xff, ''GEOMETRY'')]"

text \<open>\<^verbatim>\<open>MySqlTypes\<close>: name to wire type code (conversion.ts, lines 35 to 64).\<close>

definition MySqlTypes_DECIMAL :: nat where "MySqlTypes_DECIMAL = 0x00"
definition MySqlTypes_TINY :: nat where "MySqlTypes_TINY = 0x01"
definition MySqlTypes_SHORT :: nat where "MySqlTypes_SHORT = 0x02"
definition MySqlTypes_LONG :: nat where "MySqlTypes_LONG = 0x03"
definition MySqlTypes_FLOAT :: nat where "MySqlTypes_FLOAT = 0x04"
definition MySqlTypes_DOUBLE :: nat where "MySqlTypes_DOUBLE = 0x05"
definition MySqlTypes_NULL :: nat where "MySqlTypes_NULL = 0x06"
definition MySqlTypes_TIMESTAMP :: nat where "MySqlTypes_TIMESTAMP = 0x07"
definition MySqlTypes_LONGLONG :: nat where "MySqlTypes_LONGLONG = 0x08"
definition MySqlTypes_INT24 :: nat where "MySqlTypes_INT24 = 0x09"
definition MySqlTypes_DATE :: nat where "MySqlTypes_DATE = 0x0a"
definition MySqlTypes_TIME :: nat where "MySqlTypes_TIME = 0x0b"
definition MySqlTypes_DATETIME :: nat where "MySqlTypes_DATETIME = 0x0c"
definition MySqlTypes_YEAR :: nat where "MySqlTypes_YEAR = 0x0d"
definition MySqlTypes_NEWDATE :: nat where "MySqlTypes_NEWDATE = 0x0e"
definition MySqlTypes_VARCHAR :: nat where "MySqlTypes_VARCHAR = 0x0f"
definition MySqlTypes_BIT :: nat where "MySqlTypes_BIT = 0x10"
definition MySqlTypes_JSON :: nat where "MySqlTypes_JSON = 0xf5"
definition MySqlTypes_NEWDECIMAL :: nat where "MySqlTypes_NEWDECIMAL = 0xf6"
definition MySqlTypes_ENUM :: nat where "MySqlTypes_ENUM = 0xf7"
definition MySqlTypes_SET :: nat where "MySqlTypes_SET = 0xf8"
definition MySqlTypes_TINY_BLOB :: nat where "MySqlTypes_TINY_BLOB = 0xf9"
definition MySqlTypes_MEDIUM_BLOB :: nat where "MySqlTypes_MEDIUM_BLOB = 0xfa"
definition MySqlTypes_LONG_BLOB :: nat where "MySqlTypes_LONG_BLOB = 0xfb"
definition MySqlTypes_BLOB :: nat where "MySqlTypes_BLOB = 0xfc"
definition MySqlTypes_VAR_STRING :: nat where "MySqlTypes_VAR_STRING = 0xfd"
definition MySqlTypes_STRING :: nat where "MySqlTypes_STRING = 0xfe"
definition MySqlTypes_GEOMETRY :: nat where "MySqlTypes_GEOMETRY = 0xff"

text \<open>\<^verbatim>\<open>MySqlFlags\<close>: the two flag bits the classifier reads (conversion.ts, lines 72 and 75).\<close>

definition MySqlFlags_UNSIGNED :: nat where "MySqlFlags_UNSIGNED = 32"
definition MySqlFlags_ENUM :: nat where "MySqlFlags_ENUM = 256"

section \<open>The classifier\<close>

text \<open>
  \<^verbatim>\<open>hasFlag(flags, target) = (flags as number) & target\<close>. JavaScript's \<^verbatim>\<open>&\<close> converts both
  operands to 32-bit integers and returns a 32-bit integer; the callers test the result
  for truthiness, that is, for being non-zero.
\<close>

definition hasFlag :: "nat \<Rightarrow> nat \<Rightarrow> 32 word" where
  "hasFlag fl target = (word_of_nat fl) AND (word_of_nat target)"

definition truthy :: "32 word \<Rightarrow> bool" where
  "truthy w = (w \<noteq> 0)"

definition isReal :: "FieldPacket \<Rightarrow> bool" where
  "isReal field =
    (columnType field = Some MySqlTypes_DECIMAL \<or> columnType field = Some MySqlTypes_NEWDECIMAL)"

definition isFloat :: "FieldPacket \<Rightarrow> bool" where
  "isFloat field = (columnType field = Some MySqlTypes_FLOAT)"

definition isDouble :: "FieldPacket \<Rightarrow> bool" where
  "isDouble field = (columnType field = Some MySqlTypes_DOUBLE)"

definition isInt32 :: "FieldPacket \<Rightarrow> bool" where
  "isInt32 field =
    (columnType field = Some MySqlTypes_TINY \<or>
     columnType field = Some MySqlTypes_SHORT \<or>
     columnType field = Some MySqlTypes_YEAR \<or>
     (columnType field = Some MySqlTypes_LONG \<and>
        \<not> truthy (hasFlag (flags field) MySqlFlags_UNSIGNED)) \<or>
     (columnType field = Some MySqlTypes_INT24 \<and>
        \<not> truthy (hasFlag (flags field) MySqlFlags_UNSIGNED)))"

definition isInt64 :: "FieldPacket \<Rightarrow> bool" where
  "isInt64 field =
    (columnType field = Some MySqlTypes_LONGLONG \<or>
     (columnType field = Some MySqlTypes_LONG \<and>
        truthy (hasFlag (flags field) MySqlFlags_UNSIGNED)) \<or>
     (columnType field = Some MySqlTypes_INT24 \<and>
        truthy (hasFlag (flags field) MySqlFlags_UNSIGNED)))"

definition isDateTime :: "FieldPacket \<Rightarrow> bool" where
  "isDateTime field =
    (columnType field = Some MySqlTypes_TIMESTAMP \<or> columnType field = Some MySqlTypes_DATETIME)"

definition isTime :: "FieldPacket \<Rightarrow> bool" where
  "isTime field = (columnType field = Some MySqlTypes_TIME)"

definition isDate :: "FieldPacket \<Rightarrow> bool" where
  "isDate field =
    (columnType field = Some MySqlTypes_DATE \<or> columnType field = Some MySqlTypes_NEWDATE)"

text \<open>\<^verbatim>\<open>field.characterSet !== 63\<close> is true of an absent character set as well.\<close>

definition isText :: "FieldPacket \<Rightarrow> bool" where
  "isText field =
    (columnType field = Some MySqlTypes_VARCHAR \<or>
     columnType field = Some MySqlTypes_VAR_STRING \<or>
     columnType field = Some MySqlTypes_STRING \<or>
     (columnType field = Some MySqlTypes_TINY_BLOB \<and> characterSet field \<noteq> Some 63) \<or>
     (columnType field = Some MySqlTypes_MEDIUM_BLOB \<and> characterSet field \<noteq> Some 63) \<or>
     (columnType field = Some MySqlTypes_LONG_BLOB \<and> characterSet field \<noteq> Some 63) \<or>
     (columnType field = Some MySqlTypes_BLOB \<and> characterSet field \<noteq> Some 63))"

text \<open>
  The last disjunct is \<^verbatim>\<open>field.columnLength && field.columnLength > 1\<close>: an absent length and
  the length 0 are falsy, and the conjunction is then falsy whatever the comparison says.
\<close>

definition isBytes :: "FieldPacket \<Rightarrow> bool" where
  "isBytes field =
    ((columnType field = Some MySqlTypes_TINY_BLOB \<and> characterSet field = Some 63) \<or>
     (columnType field = Some MySqlTypes_MEDIUM_BLOB \<and> characterSet field = Some 63) \<or>
     (columnType field = Some MySqlTypes_LONG_BLOB \<and> characterSet field = Some 63) \<or>
     (columnType field = Some MySqlTypes_BLOB \<and> characterSet field = Some 63) \<or>
     (columnType field = Some MySqlTypes_BIT \<and>
        (case columnLength field of None \<Rightarrow> False | Some l \<Rightarrow> l \<noteq> 0 \<and> l > 1)))"

definition isBool :: "FieldPacket \<Rightarrow> bool" where
  "isBool field = (columnType field = Some MySqlTypes_BIT \<and> columnLength field = Some 1)"

definition isJson :: "FieldPacket \<Rightarrow> bool" where
  "isJson field = (columnType field = Some MySqlTypes_JSON)"

definition isEnum :: "FieldPacket \<Rightarrow> bool" where
  "isEnum field =
    (columnType field = Some MySqlTypes_ENUM \<or> truthy (hasFlag (flags field) MySqlFlags_ENUM))"

definition isNull :: "FieldPacket \<Rightarrow> bool" where
  "isNull field = (columnType field = Some MySqlTypes_NULL)"

text \<open>
  The exception class \<^verbatim>\<open>UnsupportedNativeDataType extends Error\<close>: a JavaScript error
  (its \<^verbatim>\<open>message\<close>) with the added attribute \<^verbatim>\<open>type\<close>. Its constructor computes
  \<^verbatim>\<open>(field.columnType && MySqlCodes[field.columnType]) || "Unknown"\<close>: an absent code and the
  code 0 are falsy, a code missing from \<^verbatim>\<open>MySqlCodes\<close> looks up \<^verbatim>\<open>undefined\<close>, and all three
  end in \<^verbatim>\<open>"Unknown"\<close>; every name of the table is a non-empty string, hence truthy.
\<close>

record JsError =
  message :: string

record UnsupportedNativeDataType = JsError +
  type :: string

definition typeName :: "FieldPacket \<Rightarrow> string" where
  "typeName field =
    (case columnType field of
       None \<Rightarrow> ''Unknown''
     | Some c \<Rightarrow>
         if c = 0 then ''Unknown''
         else (case MySqlCodes c of None \<Rightarrow> ''Unknown'' | Some n \<Rightarrow> n))"

definition new_UnsupportedNativeDataType :: "FieldPacket \<Rightarrow> UnsupportedNativeDataType" where
  "new_UnsupportedNativeDataType field =
    \<lparr>message = ''Unsupported native data type: '' @ typeName field,
     type = typeName field\<rparr>"

text \<open>\<^verbatim>\<open>fieldToColumnType\<close>: the first rule that matches wins; \<open>Inl\<close> is the \<^verbatim>\<open>throw\<close>.\<close>

definition fieldToColumnType :: "FieldPacket \<Rightarrow> UnsupportedNativeDataType + ColumnType" where
  "fieldToColumnType field =
    (if isReal field then Inr Numeric
     else if isFloat field then Inr Float
     else if isDouble field then Inr Double
     else if isInt32 field then Inr Int32
     else if isInt64 field then Inr Int64
     else if isDateTime field then Inr DateTime
     else if isTime field then Inr Time
     else if isDate field then Inr Date
     else if isText field then Inr Text
     else if isBytes field then Inr Bytes
     else if isBool field then Inr Boolean
     else if isJson field then Inr Json
     else if isEnum field then Inr Enum
     else if isNull field then Inr Int32
     else Inl (new_UnsupportedNativeDataType field))"

section \<open>The field-decoding policy of conversion.ts\<close>

text \<open>
  The argument the client hands to a \<^verbatim>\<open>typeCast\<close> callback: \<open>field_type\<close> is \<^verbatim>\<open>field.type\<close> (the
  wire type's name), \<open>field_string\<close> is the method \<^verbatim>\<open>field.string()\<close>, which yields the text
  of the value. \<open>'v\<close> is the type of decoded values. The second argument of the callback,
  \<^verbatim>\<open>next\<close>, runs the client's default decoder.
\<close>

record 'v TypeCastField =
  field_type :: string
  field_string :: "unit \<Rightarrow> 'v"

definition typeCast :: "'v TypeCastField \<Rightarrow> (unit \<Rightarrow> 'v) \<Rightarrow> 'v" where
  "typeCast field next =
    (if field_type field = ''TIMESTAMP'' then field_string field ()
     else if field_type field = ''DATETIME'' then field_string field ()
     else if field_type field = ''DATE'' then field_string field ()
     else if field_type field = ''LONGLONG'' then field_string field ()
     else next ())"

section \<open>The database client, as mysql.ts uses it\<close>

text \<open>
  \<^verbatim>\<open>QueryOptions\<close> of the client: the statement, its parameters, and the two optional
  settings \<^verbatim>\<open>rowsAsArray\<close> and \<^verbatim>\<open>typeCast\<close> (\<open>None\<close> when the object literal leaves them out).
\<close>

record 'v QueryOptions =
  opt_sql :: string
  opt_values :: "'v list"
  opt_rowsAsArray :: "bool option"
  opt_typeCast :: "('v TypeCastField \<Rightarrow> (unit \<Rightarrow> 'v) \<Rightarrow> 'v) option"

text \<open>
  What \<^verbatim>\<open>client.query\<close> resolves to: \<^verbatim>\<open>ResultSetHeader | RowDataPacket[][]\<close>. A header always
  has the attribute \<^verbatim>\<open>insertId\<close>; an array of rows never has it.
\<close>

record ResultSetHeader =
  affectedRows :: nat
  fieldCount :: nat
  info :: string
  insertId :: nat
  serverStatus :: nat
  warningStatus :: nat

datatype 'v QueryData = Rows "'v list list" | Header ResultSetHeader

text \<open>
  \<^verbatim>\<open>MySqlError = Error & { code?: number; state: string }\<close>, the shape \<^verbatim>\<open>performIO\<close> casts a
  caught value to. A caught value may also be \<^verbatim>\<open>null\<close> or \<^verbatim>\<open>undefined\<close>, which the optional
  chaining \<^verbatim>\<open>error?.code\<close> allows for.
\<close>

record MySqlError = JsError +
  code :: "int option"
  state :: string

datatype Thrown = Nullish | Thrown MySqlError

text \<open>
  The client is external: \<open>respond\<close> is what the server answers to a statement (a rejection
  with the thrown value, or the data and the optional field list), \<open>queries\<close> records the
  options of every round trip in order, \<open>releases\<close> counts the calls of \<^verbatim>\<open>release()\<close>.
\<close>

record 'v Client =
  respond :: "'v QueryOptions \<Rightarrow> Thrown + ('v QueryData \<times> FieldPacket list option)"
  queries :: "'v QueryOptions list"
  releases :: nat

definition client_query ::
  "'v Client \<Rightarrow> 'v QueryOptions \<Rightarrow>
     (Thrown + ('v QueryData \<times> FieldPacket list option)) \<times> 'v Client" where
  "client_query client options =
    (respond client options, client\<lparr>queries := queries client @ [options]\<rparr>)"

definition client_release :: "'v Client \<Rightarrow> 'v Client" where
  "client_release client = client\<lparr>releases := releases client + 1\<rparr>"

section \<open>Results and errors handed to the caller\<close>

text \<open>
  The two error objects mysql.ts builds: \<^verbatim>\<open>{ kind: "Mysql", code, message, state }\<close> (line 115)
  and \<^verbatim>\<open>{ kind: "UnsupportedNativeDataType", type }\<close> (line 69). \<open>kind\<close> is the discriminating
  string each literal carries.
\<close>

datatype Error =
  Error_Mysql int string string
  | Error_UnsupportedNativeDataType string

fun kind :: "Error \<Rightarrow> string" where
  "kind (Error_Mysql c m s) = ''Mysql''"
| "kind (Error_UnsupportedNativeDataType t) = ''UnsupportedNativeDataType''"

text \<open>\<^verbatim>\<open>Result<T>\<close>, built by \<^verbatim>\<open>ok(...)\<close> and \<^verbatim>\<open>err(...)\<close>.\<close>

datatype 'a Result = ok 'a | err Error

text \<open>\<^verbatim>\<open>QueryResult<T> = { data: T; fields: FieldPacket[] }\<close>, in this order.\<close>

datatype 'v QueryResult = QueryResult "'v QueryData" "FieldPacket list"

record 'v Query =
  sql :: string
  args :: "'v list"

record 'v ResultSet =
  columnNames :: "string list"
  columnTypes :: "ColumnType list"
  rows :: "'v list list"
  lastInsertId :: "string option"

section \<open>The client call of MySqlQueryable\<close>

text \<open>
  An asynchronous method either rejects with the thrown value (\<open>Inl\<close>) or resolves to a
  \<^verbatim>\<open>Result\<close> (\<open>Inr\<close>); the client after the call is returned beside it.

  \<^verbatim>\<open>performIO\<close>: \<^verbatim>\<open>fields\<close> defaults to the empty list; a caught value with a truthy \<^verbatim>\<open>code\<close>
  (present and not 0) becomes the \<^verbatim>\<open>Mysql\<close> error, any other caught value is thrown again.
\<close>

definition performIO ::
  "'v Client \<Rightarrow> 'v QueryOptions \<Rightarrow> (Thrown + 'v QueryResult Result) \<times> 'v Client" where
  "performIO client options =
    (case client_query client options of
       (Inr (d, fs), client') \<Rightarrow>
         (Inr (ok (QueryResult d (case fs of None \<Rightarrow> [] | Some l \<Rightarrow> l))), client')
     | (Inl e, client') \<Rightarrow>
         (case e of
            Nullish \<Rightarrow> (Inl e, client')
          | Thrown error \<Rightarrow>
              (case code error of
                 None \<Rightarrow> (Inl e, client')
               | Some c \<Rightarrow>
                   if c \<noteq> 0
                   then (Inr (err (Error_Mysql c (message error) (state error))), client')
                   else (Inl e, client'))))"

text \<open>
  \<^verbatim>\<open>fields.map((field) => fieldToColumnType(field))\<close>: the fields are classified from left to
  right, and the first \<^verbatim>\<open>throw\<close> ends the whole map.
\<close>

fun map_fieldToColumnType ::
  "FieldPacket list \<Rightarrow> UnsupportedNativeDataType + ColumnType list" where
  "map_fieldToColumnType [] = Inr []"
| "map_fieldToColumnType (field # rest) =
    (case fieldToColumnType field of
       Inl error \<Rightarrow> Inl error
     | Inr t \<Rightarrow>
         (case map_fieldToColumnType rest of
            Inl error \<Rightarrow> Inl error
          | Inr ts \<Rightarrow> Inr (t # ts)))"

section \<open>JavaScript numbers and their text\<close>

text \<open>
  \<^verbatim>\<open>insertId\<close> is a JavaScript number, that is, a double. The model writes a number that holds
  a non-negative integer as a natural number \<open>n\<close>; the number it stands for is
  \<open>Number_value n\<close>, the double nearest to \<open>n\<close> (ties to the even significand), which is \<open>n\<close>
  itself below \<open>2 ^ 53\<close> and for every \<open>n\<close> that a double holds exactly.
\<close>

fun bitLength :: "nat \<Rightarrow> nat" where
  "bitLength n = (if n = 0 then 0 else Suc (bitLength (n div 2)))"

declare bitLength.simps [simp del]

definition Number_value :: "nat \<Rightarrow> nat" where
  "Number_value x =
    (if x < 2 ^ 53 then x
     else
       let e = bitLength x - 53; q = x div 2 ^ e; r = x mod 2 ^ e; half = 2 ^ (e - 1)
       in if r < half \<or> (r = half \<and> even q) then q * 2 ^ e else (q + 1) * 2 ^ e)"

text \<open>The decimal digits of a natural number.\<close>

definition digit :: "nat \<Rightarrow> char" where
  "digit d = ''0123456789'' ! d"

fun decimal :: "nat \<Rightarrow> string" where
  "decimal n = (if n < 10 then [digit n] else decimal (n div 10) @ [digit (n mod 10)])"

declare decimal.simps [simp del]

text \<open>
  \<^verbatim>\<open>Number.prototype.toString\<close> on a number \<open>v\<close> that holds a non-negative integer (ECMA-262,
  Number::toString): the digits are those of the integer \<open>s\<close> with the fewest digits such
  that \<open>s * 10 ^ j\<close> is read back as \<open>v\<close>; of several such the one nearest to \<open>v\<close>, and of two
  equally near the even one. \<open>shortest v j\<close> tries \<open>j\<close> trailing zeros, then \<open>j - 1\<close>, down to
  none, where \<open>v\<close> itself is read back as \<open>v\<close>. Below \<open>10 ^ 21\<close> the text is the digits of \<open>s\<close>
  followed by \<open>j\<close> zeros; from \<open>10 ^ 21\<close> on it is in exponent notation.
\<close>

fun shortest :: "nat \<Rightarrow> nat \<Rightarrow> nat \<times> nat" where
  "shortest v 0 = (v, 0)"
| "shortest v (Suc j) =
    (let p = 10 ^ Suc j; lo = v div p; hi = lo + 1; r = v mod p;
         lo_ok = (0 < lo \<and> Number_value (lo * p) = v);
         hi_ok = (Number_value (hi * p) = v)
     in if lo_ok \<and> hi_ok
        then (if 2 * r < p \<or> (2 * r = p \<and> even lo) then (lo, Suc j) else (hi, Suc j))
        else if lo_ok then (lo, Suc j)
        else if hi_ok then (hi, Suc j)
        else shortest v j)"

definition Number_toString :: "nat \<Rightarrow> string" where
  "Number_toString n =
    (let v = Number_value n
     in if v = 0 then ''0''
        else
          (case shortest v (length (decimal v)) of
             (s, j) \<Rightarrow>
               if v < 10 ^ 21 then decimal s @ replicate j (CHR ''0'')
               else
                 let k = length (decimal s); e = k + j - 1
                 in if k = 1 then decimal s @ ''e+'' @ decimal e
                    else hd (decimal s) # ''.'' @ tl (decimal s) @ ''e+'' @ decimal e))"


section \<open>The operations of MySqlQueryable\<close>

text \<open>
  \<^verbatim>\<open>queryRaw\<close>. The classifier throws nothing but \<^verbatim>\<open>UnsupportedNativeDataType\<close>, so the
  \<^verbatim>\<open>throw error\<close> of the \<^verbatim>\<open>catch\<close> block has no case here.
\<close>

definition queryRaw ::
  "'v Client \<Rightarrow> 'v Query \<Rightarrow> (Thrown + 'v ResultSet Result) \<times> 'v Client" where
  "queryRaw client query =
    (case performIO client
            \<lparr>opt_sql = sql query, opt_values = args query,
             opt_rowsAsArray = Some True, opt_typeCast = Some typeCast\<rparr> of
       (Inl e, client') \<Rightarrow> (Inl e, client')
     | (Inr (err error), client') \<Rightarrow> (Inr (err error), client')
     | (Inr (ok (QueryResult data' fields')), client') \<Rightarrow>
         (let columnNames' = map name fields';
              rows' = (case data' of Rows r \<Rightarrow> r | Header h \<Rightarrow> []);
              lastInsertId' =
                (case data' of
                   Header h \<Rightarrow> Some (Number_toString (insertId h))
                 | Rows r \<Rightarrow> None)
          in case map_fieldToColumnType fields' of
               Inl error \<Rightarrow> (Inr (err (Error_UnsupportedNativeDataType (type error))), client')
             | Inr columnTypes' \<Rightarrow>
                 (Inr (ok \<lparr>columnNames = columnNames', columnTypes = columnTypes',
                           rows = rows', lastInsertId = lastInsertId'\<rparr>), client')))"

text \<open>
  \<^verbatim>\<open>executeRaw\<close>: the options carry the statement and its parameters only. The result is
  \<^verbatim>\<open>data.affectedRows\<close>, which is \<^verbatim>\<open>undefined\<close> (\<open>None\<close>) when the data is an array of rows.
\<close>

definition executeRaw ::
  "'v Client \<Rightarrow> 'v Query \<Rightarrow> (Thrown + nat option Result) \<times> 'v Client" where
  "executeRaw client query =
    (case performIO client
            \<lparr>opt_sql = sql query, opt_values = args query,
             opt_rowsAsArray = None, opt_typeCast = None\<rparr> of
       (Inl e, client') \<Rightarrow> (Inl e, client')
     | (Inr (err error), client') \<Rightarrow> (Inr (err error), client')
     | (Inr (ok (QueryResult data' fields')), client') \<Rightarrow>
         (Inr (ok (case data' of Header h \<Rightarrow> Some (affectedRows h) | Rows r \<Rightarrow> None)),
          client'))"

section \<open>MySqlTransaction\<close>

record TransactionOptions =
  usePhantomQuery :: bool

record 'v MySqlTransaction =
  client :: "'v Client"
  options :: TransactionOptions

definition commit ::
  "'v MySqlTransaction \<Rightarrow> (Thrown + unit Result) \<times> 'v MySqlTransaction" where
  "commit this = (Inr (ok ()), this\<lparr>client := client_release (client this)\<rparr>)"

definition rollback ::
  "'v MySqlTransaction \<Rightarrow> (Thrown + unit Result) \<times> 'v MySqlTransaction" where
  "rollback this = (Inr (ok ()), this\<lparr>client := client_release (client this)\<rparr>)"

section \<open>Helper facts\<close>

lemmas MySqlTypes_defs =
  MySqlTypes_DECIMAL_def MySqlTypes_TINY_def MySqlTypes_SHORT_def MySqlTypes_LONG_def
  MySqlTypes_FLOAT_def MySqlTypes_DOUBLE_def MySqlTypes_NULL_def MySqlTypes_TIMESTAMP_def
  MySqlTypes_LONGLONG_def MySqlTypes_INT24_def MySqlTypes_DATE_def MySqlTypes_TIME_def
  MySqlTypes_DATETIME_def MySqlTypes_YEAR_def MySqlTypes_NEWDATE_def MySqlTypes_VARCHAR_def
  MySqlTypes_BIT_def MySqlTypes_JSON_def MySqlTypes_NEWDECIMAL_def MySqlTypes_ENUM_def
  MySqlTypes_SET_def MySqlTypes_TINY_BLOB_def MySqlTypes_MEDIUM_BLOB_def
  MySqlTypes_LONG_BLOB_def MySqlTypes_BLOB_def MySqlTypes_VAR_STRING_def
  MySqlTypes_STRING_def MySqlTypes_GEOMETRY_def

lemmas predicate_defs =
  isReal_def isFloat_def isDouble_def isInt32_def isInt64_def isDateTime_def isTime_def
  isDate_def isText_def isBytes_def isBool_def isJson_def isEnum_def isNull_def

text \<open>The two flag tests, read on the flag word itself: bit 5 is 32, bit 8 is 256.\<close>

lemma hasFlag_UNSIGNED: "truthy (hasFlag fl MySqlFlags_UNSIGNED) = bit fl 5"
proof -
  have "(word_of_nat fl :: 32 word) AND 2 ^ 5 = 0 \<longleftrightarrow> \<not> bit (word_of_nat fl :: 32 word) 5"
    by (rule and_exp_eq_0_iff_not_bit)
  moreover have "bit (word_of_nat fl :: 32 word) 5 = bit fl 5"
    by (simp add: bit_of_nat_iff)
  ultimately show ?thesis
    by (simp add: truthy_def hasFlag_def MySqlFlags_UNSIGNED_def)
qed

lemma hasFlag_ENUM: "truthy (hasFlag fl MySqlFlags_ENUM) = bit fl 8"
proof -
  have "(word_of_nat fl :: 32 word) AND 2 ^ 8 = 0 \<longleftrightarrow> \<not> bit (word_of_nat fl :: 32 word) 8"
    by (rule and_exp_eq_0_iff_not_bit)
  moreover have "bit (word_of_nat fl :: 32 word) 8 = bit fl 8"
    by (simp add: bit_of_nat_iff)
  ultimately show ?thesis
    by (simp add: truthy_def hasFlag_def MySqlFlags_ENUM_def)
qed

lemma MySqlCodes_None:
  "MySqlCodes c = None \<longleftrightarrow>
     c \<notin> {0x00, 0x01, 0x02, 0x03, 0x04, 0x05, 0x06, 0x07, 0x08, 0x09, 0x0a, 0x0b, 0x0c, 0x0d,
          0x0e, 0x0f, 0x10, 0xf5, 0xf6, 0xf7, 0xf8, 0xf9, 0xfa, 0xfb, 0xfc, 0xfd, 0xfe, 0xff}"
  by (simp add: MySqlCodes_def)

text \<open>The classifier succeeds exactly when one of its fourteen rules matches.\<close>

lemma fieldToColumnType_Inr_iff:
  "(\<exists>t. fieldToColumnType field = Inr t) \<longleftrightarrow>
     isReal field \<or> isFloat field \<or> isDouble field \<or> isInt32 field \<or> isInt64 field \<or>
     isDateTime field \<or> isTime field \<or> isDate field \<or> isText field \<or> isBytes field \<or>
     isBool field \<or> isJson field \<or> isEnum field \<or> isNull field"
  by (simp add: fieldToColumnType_def)

lemma fieldToColumnType_Inl:
  "\<not> isReal field \<Longrightarrow> \<not> isFloat field \<Longrightarrow> \<not> isDouble field \<Longrightarrow> \<not> isInt32 field \<Longrightarrow>
   \<not> isInt64 field \<Longrightarrow> \<not> isDateTime field \<Longrightarrow> \<not> isTime field \<Longrightarrow> \<not> isDate field \<Longrightarrow>
   \<not> isText field \<Longrightarrow> \<not> isBytes field \<Longrightarrow> \<not> isBool field \<Longrightarrow> \<not> isJson field \<Longrightarrow>
   \<not> isEnum field \<Longrightarrow> \<not> isNull field \<Longrightarrow>
   fieldToColumnType field = Inl (new_UnsupportedNativeDataType field)"
  by (simp add: fieldToColumnType_def)

lemma int_succeeds:
  "columnType field = Some MySqlTypes_LONG \<or> columnType field = Some MySqlTypes_INT24 \<Longrightarrow>
   isInt32 field \<or> isInt64 field"
  unfolding isInt32_def isInt64_def by blast

lemma blob_succeeds:
  "columnType field = Some MySqlTypes_TINY_BLOB \<or> columnType field = Some MySqlTypes_MEDIUM_BLOB \<or>
   columnType field = Some MySqlTypes_LONG_BLOB \<or> columnType field = Some MySqlTypes_BLOB \<Longrightarrow>
   isText field \<or> isBytes field"
  unfolding isText_def isBytes_def by blast

lemma classified_succeeds:
  assumes "columnType field = Some c"
    and "c \<in> {MySqlTypes_DECIMAL, MySqlTypes_TINY, MySqlTypes_SHORT, MySqlTypes_LONG,
        MySqlTypes_FLOAT, MySqlTypes_DOUBLE, MySqlTypes_NULL, MySqlTypes_TIMESTAMP,
        MySqlTypes_LONGLONG, MySqlTypes_INT24, MySqlTypes_DATE, MySqlTypes_TIME,
        MySqlTypes_DATETIME, MySqlTypes_YEAR, MySqlTypes_NEWDATE, MySqlTypes_VARCHAR,
        MySqlTypes_JSON, MySqlTypes_NEWDECIMAL, MySqlTypes_ENUM, MySqlTypes_TINY_BLOB,
        MySqlTypes_MEDIUM_BLOB, MySqlTypes_LONG_BLOB, MySqlTypes_BLOB, MySqlTypes_VAR_STRING,
        MySqlTypes_STRING}"
  shows "\<exists>t. fieldToColumnType field = Inr t"
proof -
  consider
      (plain) "isReal field \<or> isFloat field \<or> isDouble field \<or> isDateTime field \<or>
         isTime field \<or> isDate field \<or> isJson field \<or> isEnum field \<or> isNull field \<or>
         columnType field = Some MySqlTypes_TINY \<or> columnType field = Some MySqlTypes_SHORT \<or>
         columnType field = Some MySqlTypes_YEAR \<or>
         columnType field = Some MySqlTypes_LONGLONG \<or>
         columnType field = Some MySqlTypes_VARCHAR \<or>
         columnType field = Some MySqlTypes_VAR_STRING \<or>
         columnType field = Some MySqlTypes_STRING"
    | (int) "columnType field = Some MySqlTypes_LONG \<or> columnType field = Some MySqlTypes_INT24"
    | (blob) "columnType field = Some MySqlTypes_TINY_BLOB \<or>
         columnType field = Some MySqlTypes_MEDIUM_BLOB \<or>
         columnType field = Some MySqlTypes_LONG_BLOB \<or>
         columnType field = Some MySqlTypes_BLOB"
    using assms
    unfolding isReal_def isFloat_def isDouble_def isDateTime_def isTime_def isDate_def
      isJson_def isEnum_def isNull_def
    by (elim insertE emptyE) simp_all
  then show ?thesis
  proof cases
    case plain
    then have "isReal field \<or> isFloat field \<or> isDouble field \<or> isInt32 field \<or>
      isInt64 field \<or> isDateTime field \<or> isTime field \<or> isDate field \<or> isText field \<or>
      isJson field \<or> isEnum field \<or> isNull field"
      unfolding isInt32_def isInt64_def isText_def by blast
    then show ?thesis unfolding fieldToColumnType_Inr_iff by blast
  next
    case int
    from int_succeeds [OF this] show ?thesis unfolding fieldToColumnType_Inr_iff by blast
  next
    case blob
    from blob_succeeds [OF this] show ?thesis unfolding fieldToColumnType_Inr_iff by blast
  qed
qed

lemma enum_flag_succeeds:
  "bit (flags field) 8 \<Longrightarrow> \<exists>t. fieldToColumnType field = Inr t"
  unfolding fieldToColumnType_Inr_iff by (simp add: isEnum_def hasFlag_ENUM)

lemma bit_succeeds:
  assumes "columnType field = Some MySqlTypes_BIT" and "columnLength field = Some l" and "1 \<le> l"
  shows "\<exists>t. fieldToColumnType field = Inr t"
proof -
  have "isBytes field \<or> isBool field"
    using assms by (cases "l = 1") (simp_all add: isBytes_def isBool_def)
  then show ?thesis unfolding fieldToColumnType_Inr_iff by blast
qed

text \<open>
  With the ENUM flag clear, a code that none of the rules names (every code but the 26 of
  the rules; SET, GEOMETRY and the codes outside the table are among them) is rejected.
\<close>

lemma unclassified_fails:
  assumes "\<not> bit (flags field) 8" and "columnType field = Some c"
    and "c \<notin> {0x00, 0x01, 0x02, 0x03, 0x04, 0x05, 0x06, 0x07, 0x08, 0x09, 0x0a, 0x0b, 0x0c, 0x0d,
          0x0e, 0x0f, 0x10, 0xf5, 0xf6, 0xf7, 0xf9, 0xfa, 0xfb, 0xfc, 0xfd, 0xfe}"
  shows "fieldToColumnType field = Inl (new_UnsupportedNativeDataType field)"
proof (rule fieldToColumnType_Inl)
  show "\<not> isReal field" using assms(2,3) by (simp add: isReal_def MySqlTypes_defs)
  show "\<not> isFloat field" using assms(2,3) by (simp add: isFloat_def MySqlTypes_defs)
  show "\<not> isDouble field" using assms(2,3) by (simp add: isDouble_def MySqlTypes_defs)
  show "\<not> isInt32 field" using assms(2,3) by (simp add: isInt32_def MySqlTypes_defs)
  show "\<not> isInt64 field" using assms(2,3) by (simp add: isInt64_def MySqlTypes_defs)
  show "\<not> isDateTime field" using assms(2,3) by (simp add: isDateTime_def MySqlTypes_defs)
  show "\<not> isTime field" using assms(2,3) by (simp add: isTime_def MySqlTypes_defs)
  show "\<not> isDate field" using assms(2,3) by (simp add: isDate_def MySqlTypes_defs)
  show "\<not> isText field" using assms(2,3) by (simp add: isText_def MySqlTypes_defs)
  show "\<not> isBytes field" using assms(2,3) by (simp add: isBytes_def MySqlTypes_defs)
  show "\<not> isBool field" using assms(2,3) by (simp add: isBool_def MySqlTypes_defs)
  show "\<not> isJson field" using assms(2,3) by (simp add: isJson_def MySqlTypes_defs)
  show "\<not> isEnum field" using assms by (simp add: isEnum_def MySqlTypes_defs hasFlag_ENUM)
  show "\<not> isNull field" using assms(2,3) by (simp add: isNull_def MySqlTypes_defs)
qed

lemma typeName_Some:
  "columnType field = Some c \<Longrightarrow> c \<noteq> 0 \<Longrightarrow> MySqlCodes c = Some n \<Longrightarrow> typeName field = n"
  by (simp add: typeName_def)

lemma typeName_Unknown:
  "columnType field = Some c \<Longrightarrow> MySqlCodes c = None \<Longrightarrow> typeName field = ''Unknown''"
  by (simp add: typeName_def)

section \<open>Helper facts about mysql.ts\<close>

text \<open>What a call leaves of the client, and what it returns, read off \<^verbatim>\<open>performIO\<close>.\<close>

lemma performIO_client: "snd (performIO c opts) = c\<lparr>queries := queries c @ [opts]\<rparr>"
  by (simp add: performIO_def client_query_def split: sum.split prod.split Thrown.split option.split)

lemma performIO_resolved:
  "respond c opts = Inr (d, fs) \<Longrightarrow>
   fst (performIO c opts) = Inr (ok (QueryResult d (case fs of None \<Rightarrow> [] | Some l \<Rightarrow> l)))"
  by (simp add: performIO_def client_query_def)

lemma performIO_rejected:
  "respond c opts = Inl e \<Longrightarrow>
   fst (performIO c opts) =
     (case e of
        Nullish \<Rightarrow> Inl e
      | Thrown error \<Rightarrow>
          (case code error of
             None \<Rightarrow> Inl e
           | Some c \<Rightarrow>
               if c \<noteq> 0 then Inr (err (Error_Mysql c (message error) (state error)))
               else Inl e))"
  by (simp add: performIO_def client_query_def split: Thrown.split option.split)

lemma queryRaw_client:
  "snd (queryRaw c q) =
     c\<lparr>queries := queries c @
       [\<lparr>opt_sql = sql q, opt_values = args q,
         opt_rowsAsArray = Some True, opt_typeCast = Some typeCast\<rparr>]\<rparr>"
proof -
  obtain r c' where p: "performIO c \<lparr>opt_sql = sql q, opt_values = args q,
         opt_rowsAsArray = Some True, opt_typeCast = Some typeCast\<rparr> = (r, c')"
    by (cases "performIO c \<lparr>opt_sql = sql q, opt_values = args q,
         opt_rowsAsArray = Some True, opt_typeCast = Some typeCast\<rparr>")
  then have "c' = c\<lparr>queries := queries c @
       [\<lparr>opt_sql = sql q, opt_values = args q,
         opt_rowsAsArray = Some True, opt_typeCast = Some typeCast\<rparr>]\<rparr>"
    using performIO_client [of c "\<lparr>opt_sql = sql q, opt_values = args q,
         opt_rowsAsArray = Some True, opt_typeCast = Some typeCast\<rparr>"] by simp
  with p show ?thesis
    by (simp add: queryRaw_def Let_def split: sum.split Result.split QueryResult.split)
qed

lemma executeRaw_client:
  "snd (executeRaw c q) =
     c\<lparr>queries := queries c @
       [\<lparr>opt_sql = sql q, opt_values = args q,
         opt_rowsAsArray = None, opt_typeCast = None\<rparr>]\<rparr>"
proof -
  obtain r c' where p: "performIO c \<lparr>opt_sql = sql q, opt_values = args q,
         opt_rowsAsArray = None, opt_typeCast = None\<rparr> = (r, c')"
    by (cases "performIO c \<lparr>opt_sql = sql q, opt_values = args q,
         opt_rowsAsArray = None, opt_typeCast = None\<rparr>")
  then have "c' = c\<lparr>queries := queries c @
       [\<lparr>opt_sql = sql q, opt_values = args q,
         opt_rowsAsArray = None, opt_typeCast = None\<rparr>]\<rparr>"
    using performIO_client [of c "\<lparr>opt_sql = sql q, opt_values = args q,
         opt_rowsAsArray = None, opt_typeCast = None\<rparr>"] by simp
  with p show ?thesis
    by (simp add: executeRaw_def split: sum.split Result.split QueryResult.split)
qed

lemma queryRaw_result:
  "fst (queryRaw c q) =
    (case fst (performIO c
            \<lparr>opt_sql = sql q, opt_values = args q,
             opt_rowsAsArray = Some True, opt_typeCast = Some typeCast\<rparr>) of
       Inl e \<Rightarrow> Inl e
     | Inr (err error) \<Rightarrow> Inr (err error)
     | Inr (ok (QueryResult data' fields')) \<Rightarrow>
         (case map_fieldToColumnType fields' of
            Inl error \<Rightarrow> Inr (err (Error_UnsupportedNativeDataType (type error)))
          | Inr columnTypes' \<Rightarrow>
              Inr (ok \<lparr>columnNames = map name fields', columnTypes = columnTypes',
                      rows = (case data' of Rows r \<Rightarrow> r | Header h \<Rightarrow> []),
                      lastInsertId =
                        (case data' of
                           Header h \<Rightarrow> Some (Number_toString (insertId h))
                         | Rows r \<Rightarrow> None)\<rparr>)))"
  by (simp add: queryRaw_def Let_def split: prod.split sum.split Result.split QueryResult.split)

lemma executeRaw_result:
  "fst (executeRaw c q) =
    (case fst (performIO c
            \<lparr>opt_sql = sql q, opt_values = args q,
             opt_rowsAsArray = None, opt_typeCast = None\<rparr>) of
       Inl e \<Rightarrow> Inl e
     | Inr (err error) \<Rightarrow> Inr (err error)
     | Inr (ok (QueryResult data' fields')) \<Rightarrow>
         Inr (ok (case data' of Header h \<Rightarrow> Some (affectedRows h) | Rows r \<Rightarrow> None)))"
  by (simp add: executeRaw_def split: prod.split sum.split Result.split QueryResult.split)


lemma map_fieldToColumnType_first:
  "\<exists>f\<in>set fs. isl (fieldToColumnType f) \<Longrightarrow>
   \<exists>f. find (\<lambda>f. isl (fieldToColumnType f)) fs = Some f \<and>
       map_fieldToColumnType fs = Inl (new_UnsupportedNativeDataType f)"
proof (induction fs)
  case Nil
  then show ?case by simp
next
  case (Cons a fs)
  show ?case
  proof (cases "fieldToColumnType a")
    case (Inl e)
    then have "e = new_UnsupportedNativeDataType a"
      by (simp add: fieldToColumnType_def split: if_splits)
    with Inl show ?thesis by simp
  next
    case (Inr t)
    with Cons.prems have "\<exists>f\<in>set fs. isl (fieldToColumnType f)" by auto
    from Cons.IH [OF this] Inr show ?thesis by auto
  qed
qed


section \<open>Helper facts about numbers and their text\<close>











lemma bitLength_upper: "n < 2 ^ bitLength n"
proof (induction n rule: bitLength.induct)
  case (1 n)
  show ?case
  proof (cases "n = 0")
    case True
    then show ?thesis by simp
  next
    case False
    from "1" [OF False] have "n div 2 < 2 ^ bitLength (n div 2)" .
    then have "n < 2 * 2 ^ bitLength (n div 2)" by linarith
    with False show ?thesis by (subst bitLength.simps) simp
  qed
qed

lemma bitLength_lower: "0 < n \<Longrightarrow> 2 ^ (bitLength n - 1) \<le> n"
proof (induction n rule: bitLength.induct)
  case (1 n)
  then have n: "n \<noteq> 0" by simp
  then have step: "bitLength n = Suc (bitLength (n div 2))"
    by (subst bitLength.simps) simp
  show ?case
  proof (cases "n div 2 = 0")
    case True
    then have "bitLength (n div 2) = 0" by (subst bitLength.simps) simp
    with step "1.prems" show ?thesis by simp
  next
    case False
    with "1.IH" [OF n] have h: "2 ^ (bitLength (n div 2) - 1) \<le> n div 2" by simp
    from False have "bitLength (n div 2) \<noteq> 0" by (subst bitLength.simps) simp
    then obtain k where k: "bitLength (n div 2) = Suc k" by (cases "bitLength (n div 2)") auto
    from h k have "2 * 2 ^ k \<le> n" by simp
    with step k show ?thesis by simp
  qed
qed


text \<open>The parts of a number of at least 2^53: exponent, significand and remainder.\<close>

lemma Number_value_parts:
  assumes "2 ^ 53 \<le> x"
  defines "e \<equiv> bitLength x - 53"
  shows "0 < e" and "2 ^ 52 \<le> x div 2 ^ e" and "x div 2 ^ e < 2 ^ 53" and "2 ^ e \<le> x"
proof -
  from assms(1) have pos: "0 < x" by (metis less_le_trans zero_less_numeral zero_less_power)
  have "(2::nat) ^ 53 < 2 ^ bitLength x"
    using assms(1) bitLength_upper [of x] by linarith
  then have b: "53 < bitLength x" by (simp only: power_strict_increasing_iff)
  then show "0 < e" by (simp add: e_def)
  from b have be: "bitLength x = 53 + e" and be1: "bitLength x - 1 = 52 + e"
    by (simp_all add: e_def)
  have lo: "2 ^ 52 * 2 ^ e \<le> x"
    using bitLength_lower [OF pos] unfolding be1 power_add .
  have hi: "x < 2 ^ 53 * 2 ^ e"
    using bitLength_upper [of x] unfolding be power_add .
  from lo show "2 ^ 52 \<le> x div 2 ^ e"
    by (simp add: less_eq_div_iff_mult_less_eq)
  from hi show "x div 2 ^ e < 2 ^ 53"
    by (simp add: less_mult_imp_div_less)
  have "(1::nat) \<le> 2 ^ 52" by simp
  then have "(2::nat) ^ e \<le> 2 ^ 52 * 2 ^ e" by (metis mult_le_mono1 nat_mult_1)
  with lo show "2 ^ e \<le> x" by linarith
qed





lemma Number_value_le_double: "Number_value x \<le> 2 * x"
proof (cases "x < 2 ^ 53")
  case True
  then show ?thesis by (simp add: Number_value_def)
next
  case False
  then have x: "2 ^ 53 \<le> x" by simp
  define e where "e = bitLength x - 53"
  define q where "q = x div 2 ^ e"
  from Number_value_parts [OF x] have e: "2 ^ e \<le> x" by (simp add: e_def)
  have qe: "q * 2 ^ e \<le> x" by (simp add: q_def)
  then have "(q + 1) * 2 ^ e \<le> 2 * x" using e by (simp add: add_mult_distrib)
  with qe show ?thesis
    using False by (simp add: Number_value_def Let_def e_def q_def)
qed

lemma Number_value_wire: "x < 2 ^ 64 \<Longrightarrow> Number_value x < 10 ^ 21"
  using Number_value_le_double [of x] by simp






section \<open>The claims about the classifier\<close>

text \<open>
  Claim C1, as the code has it. Classification succeeds for every descriptor whose wire
  type code is one of the 25 codes of the table other than BIT, SET and GEOMETRY, for BIT
  with a declared length of at least 1, and for every descriptor with the ENUM flag bit
  (256) set. With the ENUM flag clear it fails for SET and GEOMETRY, carrying the names
  \<^verbatim>\<open>"SET"\<close> and \<^verbatim>\<open>"GEOMETRY"\<close> of the table, and for every code outside the table, carrying
  \<^verbatim>\<open>"Unknown"\<close>.
\<close>

theorem C1_classification_domain:
  "(columnType field = Some c \<and>
      c \<in> {MySqlTypes_DECIMAL, MySqlTypes_TINY, MySqlTypes_SHORT, MySqlTypes_LONG,
        MySqlTypes_FLOAT, MySqlTypes_DOUBLE, MySqlTypes_NULL, MySqlTypes_TIMESTAMP,
        MySqlTypes_LONGLONG, MySqlTypes_INT24, MySqlTypes_DATE, MySqlTypes_TIME,
        MySqlTypes_DATETIME, MySqlTypes_YEAR, MySqlTypes_NEWDATE, MySqlTypes_VARCHAR,
        MySqlTypes_JSON, MySqlTypes_NEWDECIMAL, MySqlTypes_ENUM, MySqlTypes_TINY_BLOB,
        MySqlTypes_MEDIUM_BLOB, MySqlTypes_LONG_BLOB, MySqlTypes_BLOB, MySqlTypes_VAR_STRING,
        MySqlTypes_STRING}
      \<longrightarrow> (\<exists>t. fieldToColumnType field = Inr t)) \<and>
   (columnType field = Some MySqlTypes_BIT \<and> columnLength field = Some l \<and> 1 \<le> l
      \<longrightarrow> (\<exists>t. fieldToColumnType field = Inr t)) \<and>
   (bit (flags field) 8 \<longrightarrow> (\<exists>t. fieldToColumnType field = Inr t)) \<and>
   (\<not> bit (flags field) 8 \<and> columnType field = Some MySqlTypes_SET
      \<longrightarrow> fieldToColumnType field =
            Inl \<lparr>message = ''Unsupported native data type: SET'', type = ''SET''\<rparr>) \<and>
   (\<not> bit (flags field) 8 \<and> columnType field = Some MySqlTypes_GEOMETRY
      \<longrightarrow> fieldToColumnType field =
            Inl \<lparr>message = ''Unsupported native data type: GEOMETRY'', type = ''GEOMETRY''\<rparr>) \<and>
   (\<not> bit (flags field) 8 \<and> columnType field = Some c \<and> MySqlCodes c = None
      \<longrightarrow> fieldToColumnType field =
            Inl \<lparr>message = ''Unsupported native data type: Unknown'', type = ''Unknown''\<rparr>)"
proof (intro conjI impI)
  assume "columnType field = Some MySqlTypes_BIT \<and> columnLength field = Some l \<and> 1 \<le> l"
  then show "\<exists>t. fieldToColumnType field = Inr t"
    using bit_succeeds by blast
next
  assume "bit (flags field) 8"
  then show "\<exists>t. fieldToColumnType field = Inr t"
    by (rule enum_flag_succeeds)
next
  assume a: "\<not> bit (flags field) 8 \<and> columnType field = Some MySqlTypes_SET"
  then have "fieldToColumnType field = Inl (new_UnsupportedNativeDataType field)"
    by (intro unclassified_fails [where c = MySqlTypes_SET]) (simp_all add: MySqlTypes_SET_def)
  moreover have "typeName field = ''SET''"
    using a by (intro typeName_Some [where c = MySqlTypes_SET])
      (simp_all add: MySqlTypes_SET_def MySqlCodes_def)
  ultimately show "fieldToColumnType field =
      Inl \<lparr>message = ''Unsupported native data type: SET'', type = ''SET''\<rparr>"
    by (simp add: new_UnsupportedNativeDataType_def)
next
  assume a: "\<not> bit (flags field) 8 \<and> columnType field = Some MySqlTypes_GEOMETRY"
  then have "fieldToColumnType field = Inl (new_UnsupportedNativeDataType field)"
    by (intro unclassified_fails [where c = MySqlTypes_GEOMETRY])
      (simp_all add: MySqlTypes_GEOMETRY_def)
  moreover have "typeName field = ''GEOMETRY''"
    using a by (intro typeName_Some [where c = MySqlTypes_GEOMETRY])
      (simp_all add: MySqlTypes_GEOMETRY_def MySqlCodes_def)
  ultimately show "fieldToColumnType field =
      Inl \<lparr>message = ''Unsupported native data type: GEOMETRY'', type = ''GEOMETRY''\<rparr>"
    by (simp add: new_UnsupportedNativeDataType_def)
next
  assume a: "\<not> bit (flags field) 8 \<and> columnType field = Some c \<and> MySqlCodes c = None"
  then have "fieldToColumnType field = Inl (new_UnsupportedNativeDataType field)"
    by (intro unclassified_fails [where c = c]) (simp_all add: MySqlCodes_None)
  moreover have "typeName field = ''Unknown''"
    using a by (intro typeName_Unknown [where c = c]) simp_all
  ultimately show "fieldToColumnType field =
      Inl \<lparr>message = ''Unsupported native data type: Unknown'', type = ''Unknown''\<rparr>"
    by (simp add: new_UnsupportedNativeDataType_def)
qed (use classified_succeeds in blast)

text \<open>
  The theorem at six descriptors: NEWDECIMAL; BIT of length 8; SET with the ENUM flag set;
  SET and GEOMETRY with the flag clear; the code 0x11, which the table does not have.
\<close>

theorem C1_classification_domain_witness:
  "(\<exists>t. fieldToColumnType
      \<lparr>catalog = ''def'', schema = ''shop'', table = ''orders'', orgTable = ''orders'',
       name = ''total'', orgName = ''total'', characterSet = Some 63, columnLength = Some 12,
       columnType = Some 0xf6, flags = 0, decimals = 2\<rparr> = Inr t) \<and>
   (\<exists>t. fieldToColumnType
      \<lparr>catalog = ''def'', schema = ''shop'', table = ''orders'', orgTable = ''orders'',
       name = ''mask'', orgName = ''mask'', characterSet = Some 63, columnLength = Some 8,
       columnType = Some 0x10, flags = 32, decimals = 0\<rparr> = Inr t) \<and>
   (\<exists>t. fieldToColumnType
      \<lparr>catalog = ''def'', schema = ''shop'', table = ''orders'', orgTable = ''orders'',
       name = ''tags'', orgName = ''tags'', characterSet = Some 33, columnLength = Some 20,
       columnType = Some 0xf8, flags = 256, decimals = 0\<rparr> = Inr t) \<and>
   fieldToColumnType
      \<lparr>catalog = ''def'', schema = ''shop'', table = ''orders'', orgTable = ''orders'',
       name = ''tags'', orgName = ''tags'', characterSet = Some 33, columnLength = Some 20,
       columnType = Some 0xf8, flags = 0, decimals = 0\<rparr>
     = Inl \<lparr>message = ''Unsupported native data type: SET'', type = ''SET''\<rparr> \<and>
   fieldToColumnType
      \<lparr>catalog = ''def'', schema = ''shop'', table = ''orders'', orgTable = ''orders'',
       name = ''place'', orgName = ''place'', characterSet = Some 63, columnLength = Some 20,
       columnType = Some 0xff, flags = 0, decimals = 0\<rparr>
     = Inl \<lparr>message = ''Unsupported native data type: GEOMETRY'', type = ''GEOMETRY''\<rparr> \<and>
   fieldToColumnType
      \<lparr>catalog = ''def'', schema = ''shop'', table = ''orders'', orgTable = ''orders'',
       name = ''odd'', orgName = ''odd'', characterSet = Some 63, columnLength = Some 20,
       columnType = Some 0x11, flags = 0, decimals = 0\<rparr>
     = Inl \<lparr>message = ''Unsupported native data type: Unknown'', type = ''Unknown''\<rparr>"
  using
    C1_classification_domain [of
      "\<lparr>catalog = ''def'', schema = ''shop'', table = ''orders'', orgTable = ''orders'',
       name = ''total'', orgName = ''total'', characterSet = Some 63, columnLength = Some 12,
       columnType = Some 0xf6, flags = 0, decimals = 2\<rparr>" "0xf6" 0]
    C1_classification_domain [of
      "\<lparr>catalog = ''def'', schema = ''shop'', table = ''orders'', orgTable = ''orders'',
       name = ''mask'', orgName = ''mask'', characterSet = Some 63, columnLength = Some 8,
       columnType = Some 0x10, flags = 32, decimals = 0\<rparr>" "0x10" 8]
    C1_classification_domain [of
      "\<lparr>catalog = ''def'', schema = ''shop'', table = ''orders'', orgTable = ''orders'',
       name = ''tags'', orgName = ''tags'', characterSet = Some 33, columnLength = Some 20,
       columnType = Some 0xf8, flags = 256, decimals = 0\<rparr>" "0xf8" 20]
    C1_classification_domain [of
      "\<lparr>catalog = ''def'', schema = ''shop'', table = ''orders'', orgTable = ''orders'',
       name = ''tags'', orgName = ''tags'', characterSet = Some 33, columnLength = Some 20,
       columnType = Some 0xf8, flags = 0, decimals = 0\<rparr>" "0xf8" 20]
    C1_classification_domain [of
      "\<lparr>catalog = ''def'', schema = ''shop'', table = ''orders'', orgTable = ''orders'',
       name = ''place'', orgName = ''place'', characterSet = Some 63, columnLength = Some 20,
       columnType = Some 0xff, flags = 0, decimals = 0\<rparr>" "0xff" 20]
    C1_classification_domain [of
      "\<lparr>catalog = ''def'', schema = ''shop'', table = ''orders'', orgTable = ''orders'',
       name = ''odd'', orgName = ''odd'', characterSet = Some 63, columnLength = Some 20,
       columnType = Some 0x11, flags = 0, decimals = 0\<rparr>" "0x11" 20]
  by (simp add: MySqlTypes_defs MySqlCodes_def bit_iff_odd)

text \<open>
  Claim C1 as stated fails in both directions. SET (0xf8) is a code of the table, and
  a SET column is rejected. The code 0x11 is outside the table, and a column of that code with
  the ENUM flag set is classified as Enum.
\<close>

theorem C1_classification_counterexample:
  "MySqlCodes 0xf8 = Some ''SET'' \<and>
   fieldToColumnType
      \<lparr>catalog = ''def'', schema = ''shop'', table = ''orders'', orgTable = ''orders'',
       name = ''tags'', orgName = ''tags'', characterSet = Some 33, columnLength = Some 20,
       columnType = Some 0xf8, flags = 0, decimals = 0\<rparr>
     = Inl \<lparr>message = ''Unsupported native data type: SET'', type = ''SET''\<rparr> \<and>
   MySqlCodes 0x11 = None \<and>
   fieldToColumnType
      \<lparr>catalog = ''def'', schema = ''shop'', table = ''orders'', orgTable = ''orders'',
       name = ''odd'', orgName = ''odd'', characterSet = Some 63, columnLength = Some 20,
       columnType = Some 0x11, flags = 256, decimals = 0\<rparr>
     = Inr Enum"
  by (simp add: fieldToColumnType_def predicate_defs MySqlTypes_defs MySqlCodes_def
      new_UnsupportedNativeDataType_def typeName_def hasFlag_UNSIGNED hasFlag_ENUM bit_iff_odd)

text \<open>
  Claim C3, as the code has it. For a BIT column: the declared length 1 classifies as
  Boolean; a declared length above 1 (2 among them) classifies as Bytes; the declared length
  0, or an absent one, matches neither rule, so the column is Enum when the ENUM flag bit
  (256) is set and is rejected with the type name \<^verbatim>\<open>"BIT"\<close> otherwise.
\<close>

theorem C3_bit_boundary:
  "columnType field = Some MySqlTypes_BIT \<Longrightarrow>
   (columnLength field = Some 1 \<longrightarrow> fieldToColumnType field = Inr Boolean) \<and>
   (columnLength field = Some l \<and> 1 < l \<longrightarrow> fieldToColumnType field = Inr Bytes) \<and>
   (columnLength field = Some 0 \<or> columnLength field = None \<longrightarrow>
      fieldToColumnType field =
        (if bit (flags field) 8 then Inr Enum
         else Inl \<lparr>message = ''Unsupported native data type: BIT'', type = ''BIT''\<rparr>))"
  by (auto simp: fieldToColumnType_def predicate_defs MySqlTypes_defs hasFlag_ENUM
       new_UnsupportedNativeDataType_def typeName_def MySqlCodes_def)

text \<open>The theorem at BIT columns of lengths 1, 2, 0 and absent, and at length 0 with ENUM set.\<close>

theorem C3_bit_boundary_witness:
  "fieldToColumnType
      \<lparr>catalog = ''def'', schema = ''shop'', table = ''orders'', orgTable = ''orders'',
       name = ''flag'', orgName = ''flag'', characterSet = Some 63, columnLength = Some 1,
       columnType = Some 0x10, flags = 32, decimals = 0\<rparr>
     = Inr Boolean \<and>
   fieldToColumnType
      \<lparr>catalog = ''def'', schema = ''shop'', table = ''orders'', orgTable = ''orders'',
       name = ''mask'', orgName = ''mask'', characterSet = Some 63, columnLength = Some 2,
       columnType = Some 0x10, flags = 32, decimals = 0\<rparr>
     = Inr Bytes \<and>
   fieldToColumnType
      \<lparr>catalog = ''def'', schema = ''shop'', table = ''orders'', orgTable = ''orders'',
       name = ''mask'', orgName = ''mask'', characterSet = Some 63, columnLength = Some 0,
       columnType = Some 0x10, flags = 32, decimals = 0\<rparr>
     = Inl \<lparr>message = ''Unsupported native data type: BIT'', type = ''BIT''\<rparr> \<and>
   fieldToColumnType
      \<lparr>catalog = ''def'', schema = ''shop'', table = ''orders'', orgTable = ''orders'',
       name = ''mask'', orgName = ''mask'', characterSet = Some 63, columnLength = None,
       columnType = Some 0x10, flags = 32, decimals = 0\<rparr>
     = Inl \<lparr>message = ''Unsupported native data type: BIT'', type = ''BIT''\<rparr> \<and>
   fieldToColumnType
      \<lparr>catalog = ''def'', schema = ''shop'', table = ''orders'', orgTable = ''orders'',
       name = ''mask'', orgName = ''mask'', characterSet = Some 63, columnLength = Some 0,
       columnType = Some 0x10, flags = 256, decimals = 0\<rparr>
     = Inr Enum"
  using
    C3_bit_boundary [of
      "\<lparr>catalog = ''def'', schema = ''shop'', table = ''orders'', orgTable = ''orders'',
       name = ''flag'', orgName = ''flag'', characterSet = Some 63, columnLength = Some 1,
       columnType = Some 0x10, flags = 32, decimals = 0\<rparr>" 1]
    C3_bit_boundary [of
      "\<lparr>catalog = ''def'', schema = ''shop'', table = ''orders'', orgTable = ''orders'',
       name = ''mask'', orgName = ''mask'', characterSet = Some 63, columnLength = Some 2,
       columnType = Some 0x10, flags = 32, decimals = 0\<rparr>" 2]
    C3_bit_boundary [of
      "\<lparr>catalog = ''def'', schema = ''shop'', table = ''orders'', orgTable = ''orders'',
       name = ''mask'', orgName = ''mask'', characterSet = Some 63, columnLength = Some 0,
       columnType = Some 0x10, flags = 32, decimals = 0\<rparr>" 0]
    C3_bit_boundary [of
      "\<lparr>catalog = ''def'', schema = ''shop'', table = ''orders'', orgTable = ''orders'',
       name = ''mask'', orgName = ''mask'', characterSet = Some 63, columnLength = None,
       columnType = Some 0x10, flags = 32, decimals = 0\<rparr>" 0]
    C3_bit_boundary [of
      "\<lparr>catalog = ''def'', schema = ''shop'', table = ''orders'', orgTable = ''orders'',
       name = ''mask'', orgName = ''mask'', characterSet = Some 63, columnLength = Some 0,
       columnType = Some 0x10, flags = 256, decimals = 0\<rparr>" 0]
  by (simp add: MySqlTypes_defs bit_iff_odd)

text \<open>Claim C3 as stated fails at the length 0: the column is rejected, it is not Bytes.\<close>

theorem C3_bit_boundary_counterexample:
  "fieldToColumnType
      \<lparr>catalog = ''def'', schema = ''shop'', table = ''orders'', orgTable = ''orders'',
       name = ''mask'', orgName = ''mask'', characterSet = Some 63, columnLength = Some 0,
       columnType = Some 0x10, flags = 32, decimals = 0\<rparr>
     = Inl \<lparr>message = ''Unsupported native data type: BIT'', type = ''BIT''\<rparr> \<and>
   fieldToColumnType
      \<lparr>catalog = ''def'', schema = ''shop'', table = ''orders'', orgTable = ''orders'',
       name = ''mask'', orgName = ''mask'', characterSet = Some 63, columnLength = Some 0,
       columnType = Some 0x10, flags = 32, decimals = 0\<rparr>
     \<noteq> Inr Bytes"
  by (simp add: fieldToColumnType_def predicate_defs MySqlTypes_defs MySqlCodes_def
      new_UnsupportedNativeDataType_def typeName_def hasFlag_UNSIGNED hasFlag_ENUM bit_iff_odd)

text \<open>
  Claim C6. TINY, SHORT and YEAR classify as Int32 whatever the flags; LONG and INT24
  classify as Int32 when the UNSIGNED flag bit (32, bit 5) is clear and as Int64 when it is
  set; LONGLONG classifies as Int64 whatever the flags.
\<close>

theorem C6_integer_rules:
  "(columnType field \<in> {Some MySqlTypes_TINY, Some MySqlTypes_SHORT, Some MySqlTypes_YEAR}
      \<longrightarrow> fieldToColumnType field = Inr Int32) \<and>
   (columnType field \<in> {Some MySqlTypes_LONG, Some MySqlTypes_INT24}
      \<longrightarrow> fieldToColumnType field = (if bit (flags field) 5 then Inr Int64 else Inr Int32)) \<and>
   (columnType field = Some MySqlTypes_LONGLONG \<longrightarrow> fieldToColumnType field = Inr Int64)"
  by (auto simp: fieldToColumnType_def isReal_def isFloat_def isDouble_def isInt32_def
       isInt64_def MySqlTypes_defs hasFlag_UNSIGNED)

text \<open>The theorem at each of the six codes, with the UNSIGNED bit set and clear.\<close>

theorem C6_integer_rules_witness:
  "fieldToColumnType
      \<lparr>catalog = ''def'', schema = ''shop'', table = ''orders'', orgTable = ''orders'',
       name = ''qty'', orgName = ''qty'', characterSet = Some 63, columnLength = Some 4,
       columnType = Some 0x01, flags = 32, decimals = 0\<rparr>
     = Inr Int32 \<and>
   fieldToColumnType
      \<lparr>catalog = ''def'', schema = ''shop'', table = ''orders'', orgTable = ''orders'',
       name = ''qty'', orgName = ''qty'', characterSet = Some 63, columnLength = Some 6,
       columnType = Some 0x02, flags = 0, decimals = 0\<rparr>
     = Inr Int32 \<and>
   fieldToColumnType
      \<lparr>catalog = ''def'', schema = ''shop'', table = ''orders'', orgTable = ''orders'',
       name = ''qty'', orgName = ''qty'', characterSet = Some 63, columnLength = Some 4,
       columnType = Some 0x0d, flags = 96, decimals = 0\<rparr>
     = Inr Int32 \<and>
   fieldToColumnType
      \<lparr>catalog = ''def'', schema = ''shop'', table = ''orders'', orgTable = ''orders'',
       name = ''qty'', orgName = ''qty'', characterSet = Some 63, columnLength = Some 11,
       columnType = Some 0x03, flags = 0, decimals = 0\<rparr>
     = Inr Int32 \<and>
   fieldToColumnType
      \<lparr>catalog = ''def'', schema = ''shop'', table = ''orders'', orgTable = ''orders'',
       name = ''qty'', orgName = ''qty'', characterSet = Some 63, columnLength = Some 10,
       columnType = Some 0x03, flags = 32, decimals = 0\<rparr>
     = Inr Int64 \<and>
   fieldToColumnType
      \<lparr>catalog = ''def'', schema = ''shop'', table = ''orders'', orgTable = ''orders'',
       name = ''qty'', orgName = ''qty'', characterSet = Some 63, columnLength = Some 9,
       columnType = Some 0x09, flags = 4097, decimals = 0\<rparr>
     = Inr Int32 \<and>
   fieldToColumnType
      \<lparr>catalog = ''def'', schema = ''shop'', table = ''orders'', orgTable = ''orders'',
       name = ''qty'', orgName = ''qty'', characterSet = Some 63, columnLength = Some 8,
       columnType = Some 0x09, flags = 33, decimals = 0\<rparr>
     = Inr Int64 \<and>
   fieldToColumnType
      \<lparr>catalog = ''def'', schema = ''shop'', table = ''orders'', orgTable = ''orders'',
       name = ''qty'', orgName = ''qty'', characterSet = Some 63, columnLength = Some 20,
       columnType = Some 0x08, flags = 0, decimals = 0\<rparr>
     = Inr Int64 \<and>
   fieldToColumnType
      \<lparr>catalog = ''def'', schema = ''shop'', table = ''orders'', orgTable = ''orders'',
       name = ''qty'', orgName = ''qty'', characterSet = Some 63, columnLength = Some 20,
       columnType = Some 0x08, flags = 32, decimals = 0\<rparr>
     = Inr Int64"
  using
    C6_integer_rules [of
      "\<lparr>catalog = ''def'', schema = ''shop'', table = ''orders'', orgTable = ''orders'',
       name = ''qty'', orgName = ''qty'', characterSet = Some 63, columnLength = Some 4,
       columnType = Some 0x01, flags = 32, decimals = 0\<rparr>"]
    C6_integer_rules [of
      "\<lparr>catalog = ''def'', schema = ''shop'', table = ''orders'', orgTable = ''orders'',
       name = ''qty'', orgName = ''qty'', characterSet = Some 63, columnLength = Some 6,
       columnType = Some 0x02, flags = 0, decimals = 0\<rparr>"]
    C6_integer_rules [of
      "\<lparr>catalog = ''def'', schema = ''shop'', table = ''orders'', orgTable = ''orders'',
       name = ''qty'', orgName = ''qty'', characterSet = Some 63, columnLength = Some 4,
       columnType = Some 0x0d, flags = 96, decimals = 0\<rparr>"]
    C6_integer_rules [of
      "\<lparr>catalog = ''def'', schema = ''shop'', table = ''orders'', orgTable = ''orders'',
       name = ''qty'', orgName = ''qty'', characterSet = Some 63, columnLength = Some 11,
       columnType = Some 0x03, flags = 0, decimals = 0\<rparr>"]
    C6_integer_rules [of
      "\<lparr>catalog = ''def'', schema = ''shop'', table = ''orders'', orgTable = ''orders'',
       name = ''qty'', orgName = ''qty'', characterSet = Some 63, columnLength = Some 10,
       columnType = Some 0x03, flags = 32, decimals = 0\<rparr>"]
    C6_integer_rules [of
      "\<lparr>catalog = ''def'', schema = ''shop'', table = ''orders'', orgTable = ''orders'',
       name = ''qty'', orgName = ''qty'', characterSet = Some 63, columnLength = Some 9,
       columnType = Some 0x09, flags = 4097, decimals = 0\<rparr>"]
    C6_integer_rules [of
      "\<lparr>catalog = ''def'', schema = ''shop'', table = ''orders'', orgTable = ''orders'',
       name = ''qty'', orgName = ''qty'', characterSet = Some 63, columnLength = Some 8,
       columnType = Some 0x09, flags = 33, decimals = 0\<rparr>"]
    C6_integer_rules [of
      "\<lparr>catalog = ''def'', schema = ''shop'', table = ''orders'', orgTable = ''orders'',
       name = ''qty'', orgName = ''qty'', characterSet = Some 63, columnLength = Some 20,
       columnType = Some 0x08, flags = 0, decimals = 0\<rparr>"]
    C6_integer_rules [of
      "\<lparr>catalog = ''def'', schema = ''shop'', table = ''orders'', orgTable = ''orders'',
       name = ''qty'', orgName = ''qty'', characterSet = Some 63, columnLength = Some 20,
       columnType = Some 0x08, flags = 32, decimals = 0\<rparr>"]
  by (simp add: MySqlTypes_defs bit_iff_odd)

text \<open>
  Claim C7. A column of the BLOB family classifies as Bytes when its character set is 63
  and as Text when it is anything else (absent included); VARCHAR, VAR_STRING and STRING
  classify as Text whatever the character set.
\<close>

theorem C7_blob_and_text_rules:
  "(columnType field \<in> {Some MySqlTypes_TINY_BLOB, Some MySqlTypes_MEDIUM_BLOB,
                         Some MySqlTypes_LONG_BLOB, Some MySqlTypes_BLOB}
      \<longrightarrow> fieldToColumnType field =
            (if characterSet field = Some 63 then Inr Bytes else Inr Text)) \<and>
   (columnType field \<in> {Some MySqlTypes_VARCHAR, Some MySqlTypes_VAR_STRING,
                         Some MySqlTypes_STRING}
      \<longrightarrow> fieldToColumnType field = Inr Text)"
  by (auto simp: fieldToColumnType_def predicate_defs MySqlTypes_defs)

text \<open>The theorem at each of the seven codes, with the binary and with other character sets.\<close>

theorem C7_blob_and_text_rules_witness:
  "fieldToColumnType
      \<lparr>catalog = ''def'', schema = ''shop'', table = ''orders'', orgTable = ''orders'',
       name = ''note'', orgName = ''note'', characterSet = Some 63, columnLength = Some 255,
       columnType = Some 0xf9, flags = 144, decimals = 0\<rparr>
     = Inr Bytes \<and>
   fieldToColumnType
      \<lparr>catalog = ''def'', schema = ''shop'', table = ''orders'', orgTable = ''orders'',
       name = ''note'', orgName = ''note'', characterSet = Some 5, columnLength = Some 255,
       columnType = Some 0xf9, flags = 16, decimals = 0\<rparr>
     = Inr Text \<and>
   fieldToColumnType
      \<lparr>catalog = ''def'', schema = ''shop'', table = ''orders'', orgTable = ''orders'',
       name = ''note'', orgName = ''note'', characterSet = Some 63, columnLength = Some 16777215,
       columnType = Some 0xfa, flags = 144, decimals = 0\<rparr>
     = Inr Bytes \<and>
   fieldToColumnType
      \<lparr>catalog = ''def'', schema = ''shop'', table = ''orders'', orgTable = ''orders'',
       name = ''note'', orgName = ''note'', characterSet = Some 33, columnLength = Some 16777215,
       columnType = Some 0xfa, flags = 16, decimals = 0\<rparr>
     = Inr Text \<and>
   fieldToColumnType
      \<lparr>catalog = ''def'', schema = ''shop'', table = ''orders'', orgTable = ''orders'',
       name = ''note'', orgName = ''note'', characterSet = Some 63, columnLength = Some 4294967295,
       columnType = Some 0xfb, flags = 144, decimals = 0\<rparr>
     = Inr Bytes \<and>
   fieldToColumnType
      \<lparr>catalog = ''def'', schema = ''shop'', table = ''orders'', orgTable = ''orders'',
       name = ''note'', orgName = ''note'', characterSet = Some 45, columnLength = Some 4294967295,
       columnType = Some 0xfb, flags = 16, decimals = 0\<rparr>
     = Inr Text \<and>
   fieldToColumnType
      \<lparr>catalog = ''def'', schema = ''shop'', table = ''orders'', orgTable = ''orders'',
       name = ''note'', orgName = ''note'', characterSet = Some 63, columnLength = Some 65535,
       columnType = Some 0xfc, flags = 144, decimals = 0\<rparr>
     = Inr Bytes \<and>
   fieldToColumnType
      \<lparr>catalog = ''def'', schema = ''shop'', table = ''orders'', orgTable = ''orders'',
       name = ''note'', orgName = ''note'', characterSet = None, columnLength = Some 65535,
       columnType = Some 0xfc, flags = 16, decimals = 0\<rparr>
     = Inr Text \<and>
   fieldToColumnType
      \<lparr>catalog = ''def'', schema = ''shop'', table = ''orders'', orgTable = ''orders'',
       name = ''note'', orgName = ''note'', characterSet = Some 63, columnLength = Some 40,
       columnType = Some 0x0f, flags = 128, decimals = 0\<rparr>
     = Inr Text \<and>
   fieldToColumnType
      \<lparr>catalog = ''def'', schema = ''shop'', table = ''orders'', orgTable = ''orders'',
       name = ''note'', orgName = ''note'', characterSet = Some 63, columnLength = Some 40,
       columnType = Some 0xfd, flags = 128, decimals = 0\<rparr>
     = Inr Text \<and>
   fieldToColumnType
      \<lparr>catalog = ''def'', schema = ''shop'', table = ''orders'', orgTable = ''orders'',
       name = ''note'', orgName = ''note'', characterSet = Some 33, columnLength = Some 40,
       columnType = Some 0xfe, flags = 0, decimals = 0\<rparr>
     = Inr Text"
  using
    C7_blob_and_text_rules [of
      "\<lparr>catalog = ''def'', schema = ''shop'', table = ''orders'', orgTable = ''orders'',
       name = ''note'', orgName = ''note'', characterSet = Some 63, columnLength = Some 255,
       columnType = Some 0xf9, flags = 144, decimals = 0\<rparr>"]
    C7_blob_and_text_rules [of
      "\<lparr>catalog = ''def'', schema = ''shop'', table = ''orders'', orgTable = ''orders'',
       name = ''note'', orgName = ''note'', characterSet = Some 5, columnLength = Some 255,
       columnType = Some 0xf9, flags = 16, decimals = 0\<rparr>"]
    C7_blob_and_text_rules [of
      "\<lparr>catalog = ''def'', schema = ''shop'', table = ''orders'', orgTable = ''orders'',
       name = ''note'', orgName = ''note'', characterSet = Some 63, columnLength = Some 16777215,
       columnType = Some 0xfa, flags = 144, decimals = 0\<rparr>"]
    C7_blob_and_text_rules [of
      "\<lparr>catalog = ''def'', schema = ''shop'', table = ''orders'', orgTable = ''orders'',
       name = ''note'', orgName = ''note'', characterSet = Some 33, columnLength = Some 16777215,
       columnType = Some 0xfa, flags = 16, decimals = 0\<rparr>"]
    C7_blob_and_text_rules [of
      "\<lparr>catalog = ''def'', schema = ''shop'', table = ''orders'', orgTable = ''orders'',
       name = ''note'', orgName = ''note'', characterSet = Some 63, columnLength = Some 4294967295,
       columnType = Some 0xfb, flags = 144, decimals = 0\<rparr>"]
    C7_blob_and_text_rules [of
      "\<lparr>catalog = ''def'', schema = ''shop'', table = ''orders'', orgTable = ''orders'',
       name = ''note'', orgName = ''note'', characterSet = Some 45, columnLength = Some 4294967295,
       columnType = Some 0xfb, flags = 16, decimals = 0\<rparr>"]
    C7_blob_and_text_rules [of
      "\<lparr>catalog = ''def'', schema = ''shop'', table = ''orders'', orgTable = ''orders'',
       name = ''note'', orgName = ''note'', characterSet = Some 63, columnLength = Some 65535,
       columnType = Some 0xfc, flags = 144, decimals = 0\<rparr>"]
    C7_blob_and_text_rules [of
      "\<lparr>catalog = ''def'', schema = ''shop'', table = ''orders'', orgTable = ''orders'',
       name = ''note'', orgName = ''note'', characterSet = None, columnLength = Some 65535,
       columnType = Some 0xfc, flags = 16, decimals = 0\<rparr>"]
    C7_blob_and_text_rules [of
      "\<lparr>catalog = ''def'', schema = ''shop'', table = ''orders'', orgTable = ''orders'',
       name = ''note'', orgName = ''note'', characterSet = Some 63, columnLength = Some 40,
       columnType = Some 0x0f, flags = 128, decimals = 0\<rparr>"]
    C7_blob_and_text_rules [of
      "\<lparr>catalog = ''def'', schema = ''shop'', table = ''orders'', orgTable = ''orders'',
       name = ''note'', orgName = ''note'', characterSet = Some 63, columnLength = Some 40,
       columnType = Some 0xfd, flags = 128, decimals = 0\<rparr>"]
    C7_blob_and_text_rules [of
      "\<lparr>catalog = ''def'', schema = ''shop'', table = ''orders'', orgTable = ''orders'',
       name = ''note'', orgName = ''note'', characterSet = Some 33, columnLength = Some 40,
       columnType = Some 0xfe, flags = 0, decimals = 0\<rparr>"]
  by (simp add: MySqlTypes_defs)

text \<open>
  Claim C10. Two descriptors that agree on \<^verbatim>\<open>columnType\<close>, \<^verbatim>\<open>flags\<close>, \<^verbatim>\<open>characterSet\<close> and
  \<^verbatim>\<open>columnLength\<close> classify alike: the same column type, or the same exception (type name
  and message), whatever their other attributes.
\<close>

theorem C10_reads_four_attributes:
  "columnType f = columnType g \<Longrightarrow> flags f = flags g \<Longrightarrow> characterSet f = characterSet g \<Longrightarrow>
   columnLength f = columnLength g \<Longrightarrow> fieldToColumnType f = fieldToColumnType g"
  by (simp add: fieldToColumnType_def predicate_defs new_UnsupportedNativeDataType_def typeName_def)

text \<open>
  The theorem at two pairs of columns that differ in table and name: an unsigned LONG
  (both Int64) and a GEOMETRY (both rejected alike).
\<close>

theorem C10_reads_four_attributes_witness:
  "fieldToColumnType
      \<lparr>catalog = ''def'', schema = ''shop'', table = ''orders'', orgTable = ''orders'',
       name = ''id'', orgName = ''id'', characterSet = Some 63, columnLength = Some 11,
       columnType = Some 0x03, flags = 32, decimals = 0\<rparr>
     = fieldToColumnType
      \<lparr>catalog = ''def'', schema = ''shop'', table = ''customers'', orgTable = ''customers'',
       name = ''age'', orgName = ''age'', characterSet = Some 63, columnLength = Some 11,
       columnType = Some 0x03, flags = 32, decimals = 0\<rparr> \<and>
   fieldToColumnType
      \<lparr>catalog = ''def'', schema = ''shop'', table = ''orders'', orgTable = ''orders'',
       name = ''shape'', orgName = ''shape'', characterSet = Some 63, columnLength = Some 11,
       columnType = Some 0xff, flags = 0, decimals = 0\<rparr>
     = fieldToColumnType
      \<lparr>catalog = ''def'', schema = ''shop'', table = ''places'', orgTable = ''places'',
       name = ''area'', orgName = ''area'', characterSet = Some 63, columnLength = Some 11,
       columnType = Some 0xff, flags = 0, decimals = 0\<rparr>"
  using
    C10_reads_four_attributes [of
      "\<lparr>catalog = ''def'', schema = ''shop'', table = ''orders'', orgTable = ''orders'',
       name = ''id'', orgName = ''id'', characterSet = Some 63, columnLength = Some 11,
       columnType = Some 0x03, flags = 32, decimals = 0\<rparr>"
      "\<lparr>catalog = ''def'', schema = ''shop'', table = ''customers'', orgTable = ''customers'',
       name = ''age'', orgName = ''age'', characterSet = Some 63, columnLength = Some 11,
       columnType = Some 0x03, flags = 32, decimals = 0\<rparr>"]
    C10_reads_four_attributes [of
      "\<lparr>catalog = ''def'', schema = ''shop'', table = ''orders'', orgTable = ''orders'',
       name = ''shape'', orgName = ''shape'', characterSet = Some 63, columnLength = Some 11,
       columnType = Some 0xff, flags = 0, decimals = 0\<rparr>"
      "\<lparr>catalog = ''def'', schema = ''shop'', table = ''places'', orgTable = ''places'',
       name = ''area'', orgName = ''area'', characterSet = Some 63, columnLength = Some 11,
       columnType = Some 0xff, flags = 0, decimals = 0\<rparr>"]
  by simp

section \<open>The claims about mysql.ts\<close>

text \<open>
  Claim C2, as the code has it. When the client rejects the statement of a query, or of a
  mutation, with a value whose \<^verbatim>\<open>code\<close> is present and not 0, that operation returns the error
  value \<^verbatim>\<open>{ kind: "Mysql", code, message, state }\<close>; when the thrown value is null or undefined,
  or its \<^verbatim>\<open>code\<close> is absent or 0, that operation rejects with the same value. The two
  operations are taken one by one: each has its own hypothesis.
\<close>

theorem C2_driver_failure_translation:
  "(respond c \<lparr>opt_sql = sql q, opt_values = args q,
               opt_rowsAsArray = Some True, opt_typeCast = Some typeCast\<rparr> = Inl e \<longrightarrow>
      (e = Thrown error \<and> code error = Some k \<and> k \<noteq> 0 \<longrightarrow>
         fst (queryRaw c q) = Inr (err (Error_Mysql k (message error) (state error)))) \<and>
      (e = Nullish \<or> e = Thrown error \<and> (code error = None \<or> code error = Some 0) \<longrightarrow>
         fst (queryRaw c q) = Inl e)) \<and>
   (respond c \<lparr>opt_sql = sql q, opt_values = args q,
               opt_rowsAsArray = None, opt_typeCast = None\<rparr> = Inl e \<longrightarrow>
      (e = Thrown error \<and> code error = Some k \<and> k \<noteq> 0 \<longrightarrow>
         fst (executeRaw c q) = Inr (err (Error_Mysql k (message error) (state error)))) \<and>
      (e = Nullish \<or> e = Thrown error \<and> (code error = None \<or> code error = Some 0) \<longrightarrow>
         fst (executeRaw c q) = Inl e)) \<and>
   kind (Error_Mysql k (message error) (state error)) = ''Mysql''"
proof (intro conjI impI)
  assume r: "respond c \<lparr>opt_sql = sql q, opt_values = args q,
               opt_rowsAsArray = Some True, opt_typeCast = Some typeCast\<rparr> = Inl e"
  {
    assume "e = Thrown error \<and> code error = Some k \<and> k \<noteq> 0"
    then show "fst (queryRaw c q) = Inr (err (Error_Mysql k (message error) (state error)))"
      using performIO_rejected [OF r] by (simp add: queryRaw_result)
  }
  {
    assume "e = Nullish \<or> e = Thrown error \<and> (code error = None \<or> code error = Some 0)"
    then show "fst (queryRaw c q) = Inl e"
      using performIO_rejected [OF r] by (auto simp: queryRaw_result)
  }
next
  assume r: "respond c \<lparr>opt_sql = sql q, opt_values = args q,
               opt_rowsAsArray = None, opt_typeCast = None\<rparr> = Inl e"
  {
    assume "e = Thrown error \<and> code error = Some k \<and> k \<noteq> 0"
    then show "fst (executeRaw c q) = Inr (err (Error_Mysql k (message error) (state error)))"
      using performIO_rejected [OF r] by (simp add: executeRaw_result)
  }
  {
    assume "e = Nullish \<or> e = Thrown error \<and> (code error = None \<or> code error = Some 0)"
    then show "fst (executeRaw c q) = Inl e"
      using performIO_rejected [OF r] by (auto simp: executeRaw_result)
  }
next
  show "kind (Error_Mysql k (message error) (state error)) = ''Mysql''" by simp
qed

text \<open>
  The theorem at five clients: one rejects queries only (code 1045, "Access denied", state
  "28000"), one rejects mutations only, one throws an error without a code, one throws an
  error whose code is 0, one throws null.
\<close>

theorem C2_driver_failure_translation_witness:
  "fst (queryRaw
      (\<lparr>respond = (\<lambda>opts. if opt_rowsAsArray opts = Some True
                            then Inl (Thrown \<lparr>message = ''Access denied'', code = Some 1045,
                                               state = ''28000''\<rparr>)
                            else Inr (Header \<lparr>affectedRows = 1, fieldCount = 0, info = [],
                                             insertId = 0, serverStatus = 2, warningStatus = 0\<rparr>,
                                      None)),
        queries = [], releases = 0\<rparr> :: string Client)
      \<lparr>sql = ''SELECT 1'', args = []\<rparr>)
     = Inr (err (Error_Mysql 1045 ''Access denied'' ''28000'')) \<and>
   fst (executeRaw
      (\<lparr>respond = (\<lambda>opts. if opt_rowsAsArray opts = Some True
                            then Inr (Rows [], Some [])
                            else Inl (Thrown \<lparr>message = ''Access denied'', code = Some 1045,
                                               state = ''28000''\<rparr>)),
        queries = [], releases = 0\<rparr> :: string Client)
      \<lparr>sql = ''DELETE FROM orders'', args = []\<rparr>)
     = Inr (err (Error_Mysql 1045 ''Access denied'' ''28000'')) \<and>
   fst (queryRaw
      (\<lparr>respond = (\<lambda>opts. Inl (Thrown \<lparr>message = ''socket closed'', code = None,
                                           state = []\<rparr>)),
        queries = [], releases = 0\<rparr> :: string Client)
      \<lparr>sql = ''SELECT 1'', args = []\<rparr>)
     = Inl (Thrown \<lparr>message = ''socket closed'', code = None, state = []\<rparr>) \<and>
   fst (executeRaw
      (\<lparr>respond = (\<lambda>opts. Inl (Thrown \<lparr>message = ''no code'', code = Some 0,
                                           state = ''HY000''\<rparr>)),
        queries = [], releases = 0\<rparr> :: string Client)
      \<lparr>sql = ''SELECT 1'', args = []\<rparr>)
     = Inl (Thrown \<lparr>message = ''no code'', code = Some 0, state = ''HY000''\<rparr>) \<and>
   fst (executeRaw
      (\<lparr>respond = (\<lambda>opts. Inl Nullish), queries = [], releases = 0\<rparr> :: string Client)
      \<lparr>sql = ''SELECT 1'', args = []\<rparr>)
     = Inl Nullish"
  using
    C2_driver_failure_translation [where
      c = "\<lparr>respond = (\<lambda>opts. if opt_rowsAsArray opts = Some True
                            then Inl (Thrown \<lparr>message = ''Access denied'', code = Some 1045,
                                               state = ''28000''\<rparr>)
                            else Inr (Header \<lparr>affectedRows = 1, fieldCount = 0, info = [],
                                             insertId = 0, serverStatus = 2, warningStatus = 0\<rparr>,
                                      None)),
        queries = [], releases = 0\<rparr> :: string Client"
      and q = "\<lparr>sql = ''SELECT 1'', args = []\<rparr>"
      and e = "Thrown \<lparr>message = ''Access denied'', code = Some 1045, state = ''28000''\<rparr>"
      and error = "\<lparr>message = ''Access denied'', code = Some 1045, state = ''28000''\<rparr>"
      and k = 1045]
    C2_driver_failure_translation [where
      c = "\<lparr>respond = (\<lambda>opts. if opt_rowsAsArray opts = Some True
                            then Inr (Rows [], Some [])
                            else Inl (Thrown \<lparr>message = ''Access denied'', code = Some 1045,
                                               state = ''28000''\<rparr>)),
        queries = [], releases = 0\<rparr> :: string Client"
      and q = "\<lparr>sql = ''DELETE FROM orders'', args = []\<rparr>"
      and e = "Thrown \<lparr>message = ''Access denied'', code = Some 1045, state = ''28000''\<rparr>"
      and error = "\<lparr>message = ''Access denied'', code = Some 1045, state = ''28000''\<rparr>"
      and k = 1045]
    C2_driver_failure_translation [where
      c = "\<lparr>respond = (\<lambda>opts. Inl (Thrown \<lparr>message = ''socket closed'', code = None,
                                           state = []\<rparr>)),
        queries = [], releases = 0\<rparr> :: string Client"
      and q = "\<lparr>sql = ''SELECT 1'', args = []\<rparr>"
      and e = "Thrown \<lparr>message = ''socket closed'', code = None, state = []\<rparr>"
      and error = "\<lparr>message = ''socket closed'', code = None, state = []\<rparr>"
      and k = 0]
    C2_driver_failure_translation [where
      c = "\<lparr>respond = (\<lambda>opts. Inl (Thrown \<lparr>message = ''no code'', code = Some 0,
                                           state = ''HY000''\<rparr>)),
        queries = [], releases = 0\<rparr> :: string Client"
      and q = "\<lparr>sql = ''SELECT 1'', args = []\<rparr>"
      and e = "Thrown \<lparr>message = ''no code'', code = Some 0, state = ''HY000''\<rparr>"
      and error = "\<lparr>message = ''no code'', code = Some 0, state = ''HY000''\<rparr>"
      and k = 0]
    C2_driver_failure_translation [where
      c = "\<lparr>respond = (\<lambda>opts. Inl Nullish), queries = [], releases = 0\<rparr> :: string Client"
      and q = "\<lparr>sql = ''SELECT 1'', args = []\<rparr>"
      and e = "Nullish"
      and error = "\<lparr>message = [], code = None, state = []\<rparr>"
      and k = 0]
  by simp

text \<open>
  Claim C2 as stated fails at its own example: the error returned for code 1045, message
  "Access denied", state "28000" has the kind \<^verbatim>\<open>"Mysql"\<close>, not \<^verbatim>\<open>"DatabaseError"\<close>.
\<close>

theorem C2_driver_failure_translation_counterexample:
  "fst (queryRaw
      (\<lparr>respond = (\<lambda>opts. Inl (Thrown \<lparr>message = ''Access denied'', code = Some 1045,
                                           state = ''28000''\<rparr>)),
        queries = [], releases = 0\<rparr> :: string Client)
      \<lparr>sql = ''SELECT 1'', args = []\<rparr>)
     = Inr (err (Error_Mysql 1045 ''Access denied'' ''28000'')) \<and>
   kind (Error_Mysql 1045 ''Access denied'' ''28000'') = ''Mysql'' \<and>
   kind (Error_Mysql 1045 ''Access denied'' ''28000'') \<noteq> ''DatabaseError''"
  by (simp add: queryRaw_def performIO_def client_query_def)

text \<open>
  Claim C4, as the code has it. \<^verbatim>\<open>queryRaw\<close> issues one round trip whose options carry
  \<^verbatim>\<open>rowsAsArray: true\<close> and the policy \<^verbatim>\<open>typeCast\<close>; \<^verbatim>\<open>executeRaw\<close> issues one round trip whose
  options carry the statement and its parameters only, so the client's default decoding
  applies there. The policy returns the field's text for exactly the four type names
  TIMESTAMP, DATETIME, DATE and LONGLONG, and the default decoder's value otherwise. When
  the client answers, \<^verbatim>\<open>executeRaw\<close> returns \<^verbatim>\<open>data.affectedRows\<close> and nothing else: the count of
  a header, \<^verbatim>\<open>undefined\<close> for an array of rows.
\<close>

theorem C4_decoding_policy:
  "queries (snd (queryRaw c q)) =
     queries c @ [\<lparr>opt_sql = sql q, opt_values = args q,
                    opt_rowsAsArray = Some True, opt_typeCast = Some typeCast\<rparr>] \<and>
   queries (snd (executeRaw c q)) =
     queries c @ [\<lparr>opt_sql = sql q, opt_values = args q,
                    opt_rowsAsArray = None, opt_typeCast = None\<rparr>] \<and>
   typeCast field nxt =
     (if field_type field \<in> {''TIMESTAMP'', ''DATETIME'', ''DATE'', ''LONGLONG''}
      then field_string field () else nxt ()) \<and>
   (respond c \<lparr>opt_sql = sql q, opt_values = args q,
               opt_rowsAsArray = None, opt_typeCast = None\<rparr> = Inr (d, fs) \<longrightarrow>
      fst (executeRaw c q) =
        Inr (ok (case d of Header h \<Rightarrow> Some (affectedRows h) | Rows r \<Rightarrow> None)))"
proof (intro conjI impI)
  assume "respond c \<lparr>opt_sql = sql q, opt_values = args q,
               opt_rowsAsArray = None, opt_typeCast = None\<rparr> = Inr (d, fs)"
  from performIO_resolved [OF this]
  show "fst (executeRaw c q) =
        Inr (ok (case d of Header h \<Rightarrow> Some (affectedRows h) | Rows r \<Rightarrow> None))"
    by (simp add: executeRaw_result)
qed (simp_all add: queryRaw_client executeRaw_client typeCast_def)

text \<open>
  The theorem at an update answered with a header (3 affected rows, identifier 7) and at a
  select answered with rows, and the policy at a DATE and at a VARCHAR field.
\<close>

theorem C4_decoding_policy_witness:
  "fst (executeRaw
      (\<lparr>respond = (\<lambda>opts. Inr (Header \<lparr>affectedRows = 3, fieldCount = 0, info = [],
                                          insertId = 7, serverStatus = 2, warningStatus = 0\<rparr>,
                                  None)),
        queries = [], releases = 0\<rparr> :: string Client)
      \<lparr>sql = ''UPDATE orders SET note = ?'', args = [''x'']\<rparr>)
     = Inr (ok (Some 3)) \<and>
   fst (executeRaw
      (\<lparr>respond = (\<lambda>opts. Inr (Rows [[''x'']], Some [])),
        queries = [], releases = 0\<rparr> :: string Client)
      \<lparr>sql = ''SELECT note FROM orders'', args = []\<rparr>)
     = Inr (ok None) \<and>
   typeCast \<lparr>field_type = ''DATE'', field_string = (\<lambda>u. ''2024-01-01'')\<rparr> (\<lambda>u. ''native'')
     = ''2024-01-01'' \<and>
   typeCast \<lparr>field_type = ''VARCHAR'', field_string = (\<lambda>u. ''abc'')\<rparr> (\<lambda>u. ''native'')
     = ''native''"
  using
    C4_decoding_policy [where
      c = "\<lparr>respond = (\<lambda>opts. Inr (Header \<lparr>affectedRows = 3, fieldCount = 0, info = [],
                                          insertId = 7, serverStatus = 2, warningStatus = 0\<rparr>,
                                  None)),
        queries = [], releases = 0\<rparr> :: string Client"
      and q = "\<lparr>sql = ''UPDATE orders SET note = ?'', args = [''x'']\<rparr>"
      and d = "Header \<lparr>affectedRows = 3, fieldCount = 0, info = [],
                       insertId = 7, serverStatus = 2, warningStatus = 0\<rparr>"
      and fs = None
      and field = "\<lparr>field_type = ''DATE'', field_string = (\<lambda>u. ''2024-01-01'')\<rparr>"
      and nxt = "\<lambda>u. ''native''"]
    C4_decoding_policy [where
      c = "\<lparr>respond = (\<lambda>opts. Inr (Rows [[''x'']], Some [])),
        queries = [], releases = 0\<rparr> :: string Client"
      and q = "\<lparr>sql = ''SELECT note FROM orders'', args = []\<rparr>"
      and d = "Rows [[''x'']]"
      and fs = "Some []"
      and field = "\<lparr>field_type = ''VARCHAR'', field_string = (\<lambda>u. ''abc'')\<rparr>"
      and nxt = "\<lambda>u. ''native''"]
  by simp

text \<open>
  Claim C4 as stated fails for \<^verbatim>\<open>executeRaw\<close>: the options of its round trip carry no
  \<^verbatim>\<open>typeCast\<close>.
\<close>

theorem C4_decoding_policy_counterexample:
  "map opt_typeCast (queries (snd (executeRaw
      (\<lparr>respond = (\<lambda>opts. Inr (Header \<lparr>affectedRows = 1, fieldCount = 0, info = [],
                                          insertId = 7, serverStatus = 2, warningStatus = 0\<rparr>,
                                  None)),
        queries = [], releases = 0\<rparr> :: string Client)
      \<lparr>sql = ''INSERT INTO orders (placed) VALUES (?)'', args = [''2024-01-01 10:00:00'']\<rparr>)))
    = [None]"
  by (simp add: executeRaw_def performIO_def client_query_def)

text \<open>
  Claim C5. When the client answers with fields of which at least one is rejected by the
  classifier, \<^verbatim>\<open>queryRaw\<close> returns the error \<^verbatim>\<open>{ kind: "UnsupportedNativeDataType", type }\<close> with
  the type name of the first rejected field, and returns no result set.
\<close>

theorem C5_unclassifiable_column:
  assumes "respond c \<lparr>opt_sql = sql q, opt_values = args q,
                      opt_rowsAsArray = Some True, opt_typeCast = Some typeCast\<rparr>
             = Inr (d, Some fs)"
    and "\<exists>f\<in>set fs. isl (fieldToColumnType f)"
  shows "\<exists>f. find (\<lambda>f. isl (fieldToColumnType f)) fs = Some f \<and>
             fst (queryRaw c q) = Inr (err (Error_UnsupportedNativeDataType (typeName f))) \<and>
             kind (Error_UnsupportedNativeDataType (typeName f)) = ''UnsupportedNativeDataType'' \<and>
             (\<forall>envelope. fst (queryRaw c q) \<noteq> Inr (ok envelope))"
proof -
  from map_fieldToColumnType_first [OF assms(2)] obtain f
    where f: "find (\<lambda>f. isl (fieldToColumnType f)) fs = Some f"
      and m: "map_fieldToColumnType fs = Inl (new_UnsupportedNativeDataType f)"
    by blast
  have "fst (queryRaw c q) = Inr (err (Error_UnsupportedNativeDataType (typeName f)))"
    using performIO_resolved [OF assms(1)] m
    by (simp add: queryRaw_result new_UnsupportedNativeDataType_def)
  with f show ?thesis by auto
qed

text \<open>The theorem at a result of three columns, the second of them a SET column.\<close>

theorem C5_unclassifiable_column_witness:
  "fst (queryRaw
      (\<lparr>respond = (\<lambda>opts. Inr (Rows [[''7'', ''a,b'', ''x'']],
         Some [\<lparr>catalog = ''def'', schema = ''shop'', table = ''orders'', orgTable = ''orders'',
                name = ''id'', orgName = ''id'', characterSet = Some 63, columnLength = Some 11,
                columnType = Some 0x03, flags = 0, decimals = 0\<rparr>,
               \<lparr>catalog = ''def'', schema = ''shop'', table = ''orders'', orgTable = ''orders'',
                name = ''tags'', orgName = ''tags'', characterSet = Some 33, columnLength = Some 20,
                columnType = Some 0xf8, flags = 0, decimals = 0\<rparr>,
               \<lparr>catalog = ''def'', schema = ''shop'', table = ''orders'', orgTable = ''orders'',
                name = ''note'', orgName = ''note'', characterSet = Some 33, columnLength = Some 40,
                columnType = Some 0xfd, flags = 0, decimals = 0\<rparr>])),
        queries = [], releases = 0\<rparr> :: string Client)
      \<lparr>sql = ''SELECT id, tags, note FROM orders'', args = []\<rparr>)
     = Inr (err (Error_UnsupportedNativeDataType ''SET''))"
proof -
  let ?f1 = "\<lparr>catalog = ''def'', schema = ''shop'', table = ''orders'', orgTable = ''orders'',
                name = ''id'', orgName = ''id'', characterSet = Some 63, columnLength = Some 11,
                columnType = Some 0x03, flags = 0, decimals = 0\<rparr>"
  let ?f2 = "\<lparr>catalog = ''def'', schema = ''shop'', table = ''orders'', orgTable = ''orders'',
                name = ''tags'', orgName = ''tags'', characterSet = Some 33, columnLength = Some 20,
                columnType = Some 0xf8, flags = 0, decimals = 0\<rparr>"
  let ?f3 = "\<lparr>catalog = ''def'', schema = ''shop'', table = ''orders'', orgTable = ''orders'',
                name = ''note'', orgName = ''note'', characterSet = Some 33, columnLength = Some 40,
                columnType = Some 0xfd, flags = 0, decimals = 0\<rparr>"
  let ?c = "\<lparr>respond = (\<lambda>opts. Inr (Rows [[''7'', ''a,b'', ''x'']], Some [?f1, ?f2, ?f3])),
        queries = [], releases = 0\<rparr> :: string Client"
  let ?q = "\<lparr>sql = ''SELECT id, tags, note FROM orders'', args = []\<rparr> :: string Query"
  have f1: "fieldToColumnType ?f1 = Inr Int32"
    by (simp add: fieldToColumnType_def predicate_defs MySqlTypes_defs hasFlag_UNSIGNED)
  have f2: "fieldToColumnType ?f2 = Inl (new_UnsupportedNativeDataType ?f2)"
    by (simp add: fieldToColumnType_def predicate_defs MySqlTypes_defs hasFlag_UNSIGNED
        hasFlag_ENUM)
  have r: "respond ?c \<lparr>opt_sql = sql ?q, opt_values = args ?q,
                      opt_rowsAsArray = Some True, opt_typeCast = Some typeCast\<rparr>
             = Inr (Rows [[''7'', ''a,b'', ''x'']], Some [?f1, ?f2, ?f3])"
    by simp
  have x: "\<exists>f\<in>set [?f1, ?f2, ?f3]. isl (fieldToColumnType f)"
    using f2 by simp
  from C5_unclassifiable_column [OF r x] obtain f
    where f: "find (\<lambda>f. isl (fieldToColumnType f)) [?f1, ?f2, ?f3] = Some f"
      and res: "fst (queryRaw ?c ?q) = Inr (err (Error_UnsupportedNativeDataType (typeName f)))"
    by blast
  from f f1 f2 have "f = ?f2" by simp
  moreover have "typeName ?f2 = ''SET''"
    by (simp add: typeName_def MySqlCodes_def)
  ultimately show ?thesis using res by simp
qed



text \<open>
  Claim C9. \<^verbatim>\<open>commit\<close> calls \<^verbatim>\<open>release\<close> on the transaction's connection exactly once and
  resolves to \<^verbatim>\<open>ok(undefined)\<close>, and so does \<^verbatim>\<open>rollback\<close>; neither issues a statement.
\<close>

theorem C9_release_once:
  "fst (commit this) = Inr (ok ()) \<and>
   releases (client (snd (commit this))) = releases (client this) + 1 \<and>
   queries (client (snd (commit this))) = queries (client this) \<and>
   fst (rollback this) = Inr (ok ()) \<and>
   releases (client (snd (rollback this))) = releases (client this) + 1 \<and>
   queries (client (snd (rollback this))) = queries (client this)"
  by (simp add: commit_def rollback_def client_release_def)

end
